theory Spec2Isabelle
  imports Complex_Main
begin

section \<open>Python values\<close>

text \<open>
  The record normaliser of \<^verbatim>\<open>secfiling_extraction.py\<close> works on whatever
  \<^verbatim>\<open>json.load\<close> returns: \<^verbatim>\<open>None\<close>, booleans, integers, floats, strings, lists
  and dictionaries with string keys. A dictionary is kept as an association list in
  insertion order (the order \<^verbatim>\<open>.items()\<close> iterates in); lookups go through
  \<^const>\<open>map_of\<close>.

  Characters are modelled as ASCII: \<^verbatim>\<open>str.lower\<close>, \<^verbatim>\<open>\d\<close> and \<^verbatim>\<open>\s\<close> are the
  ASCII ones. A float is kept as the number it stands for; rounding to binary64 is not
  modelled.
\<close>

datatype pyfloat = Finite rat | PosInf | NegInf | NaN

datatype pyval =
    PNone
  | PBool bool
  | PInt int
  | PFloat pyfloat
  | PStr string
  | PList "pyval list"
  | PDict "(string \<times> pyval) list"

datatype py_error = TypeError | AttributeError | KeyError

text \<open>Truth value testing, as \<^verbatim>\<open>not value\<close> uses it.\<close>

fun truthy :: "pyval \<Rightarrow> bool" where
  "truthy PNone = False"
| "truthy (PBool b) = b"
| "truthy (PInt i) = (i \<noteq> 0)"
| "truthy (PFloat f) = (f \<noteq> Finite 0)"
| "truthy (PStr s) = (s \<noteq> [])"
| "truthy (PList xs) = (xs \<noteq> [])"
| "truthy (PDict kvs) = (kvs \<noteq> [])"

fun is_str :: "pyval \<Rightarrow> bool" where
  "is_str (PStr s) = True"
| "is_str v = False"

fun is_dict :: "pyval \<Rightarrow> bool" where
  "is_dict (PDict kvs) = True"
| "is_dict v = False"

text \<open>\<^verbatim>\<open>d.get(key, default)\<close> on a dictionary.\<close>

definition dict_get :: "(string \<times> pyval) list \<Rightarrow> string \<Rightarrow> pyval \<Rightarrow> pyval" where
  "dict_get d key dflt = (case map_of d key of Some v \<Rightarrow> v | None \<Rightarrow> dflt)"

section \<open>String helpers\<close>

definition lower_char :: "char \<Rightarrow> char" where
  "lower_char c =
     (case map_of (zip ''ABCDEFGHIJKLMNOPQRSTUVWXYZ'' ''abcdefghijklmnopqrstuvwxyz'') c of
        Some l \<Rightarrow> l
      | None \<Rightarrow> c)"

definition py_lower :: "string \<Rightarrow> string" where
  "py_lower s = map lower_char s"

definition is_digit :: "char \<Rightarrow> bool" where
  "is_digit c = (let n = (of_char c :: nat) in 48 \<le> n \<and> n \<le> 57)"

text \<open>ASCII white space as \<^verbatim>\<open>str.strip()\<close> and \<^verbatim>\<open>\s\<close> see it: tab, line feed,
  vertical tab, form feed, carriage return, the four separators 28..31 and the space.\<close>

definition is_space :: "char \<Rightarrow> bool" where
  "is_space c = (let n = (of_char c :: nat) in (9 \<le> n \<and> n \<le> 13) \<or> (28 \<le> n \<and> n \<le> 32))"

definition py_strip :: "string \<Rightarrow> string" where
  "py_strip s = rev (dropWhile is_space (rev (dropWhile is_space s)))"

fun startswith :: "string \<Rightarrow> string \<Rightarrow> bool" where
  "startswith s [] = True"
| "startswith [] (p # ps) = False"
| "startswith (c # cs) (p # ps) = (c = p \<and> startswith cs ps)"

text \<open>\<^verbatim>\<open>sub in s\<close> for two strings.\<close>

fun str_contains :: "string \<Rightarrow> string \<Rightarrow> bool" where
  "str_contains [] sub = (sub = [])"
| "str_contains (c # cs) sub = (startswith (c # cs) sub \<or> str_contains cs sub)"

text \<open>\<^verbatim>\<open>s.replace(old, '')\<close> for a one-character \<^verbatim>\<open>old\<close>.\<close>

definition remove_char :: "char \<Rightarrow> string \<Rightarrow> string" where
  "remove_char x s = filter (\<lambda>c. c \<noteq> x) s"

section \<open>Value normalisation\<close>

subsection \<open>The number pattern\<close>

text \<open>
  \<^verbatim>\<open>pattern = r'-?\d{1,3}(?:,\d{3})*(?:\.\d+)?'\<close>, used with \<^verbatim>\<open>re.search\<close>.
  Every piece after \<^verbatim>\<open>\d{1,3}\<close> may match nothing, so the greedy choice of each piece
  is the one the backtracking matcher settles on; the only backtracking is over
  \<^verbatim>\<open>-?\<close>, and after giving the sign up the same position has no digit. The
  functions below follow the pattern piece by piece and return the matched text
  together with the rest of the input.
\<close>

text \<open>\<^verbatim>\<open>\d{1,3}\<close> (with \<open>n = 3\<close>): as many digits as there are, at most \<open>n\<close>.\<close>

fun take_digits :: "nat \<Rightarrow> string \<Rightarrow> string \<times> string" where
  "take_digits 0 s = ([], s)"
| "take_digits (Suc n) [] = ([], [])"
| "take_digits (Suc n) (c # cs) =
     (if is_digit c then (let (ds, r) = take_digits n cs in (c # ds, r)) else ([], c # cs))"

text \<open>\<^verbatim>\<open>(?:,\d{3})*\<close>: comma groups of exactly three digits, as many as follow.\<close>

fun match_groups :: "string \<Rightarrow> string \<times> string" where
  "match_groups (k # a # b # c # cs) =
     (if k = CHR '','' \<and> is_digit a \<and> is_digit b \<and> is_digit c
      then (let (m, r) = match_groups cs in (k # a # b # c # m, r))
      else ([], k # a # b # c # cs))"
| "match_groups s = ([], s)"

text \<open>\<^verbatim>\<open>(?:\.\d+)?\<close>: a point and all the digits after it, when there is at least one.\<close>

fun match_fraction :: "string \<Rightarrow> string \<times> string" where
  "match_fraction (p # d # cs) =
     (if p = CHR ''.'' \<and> is_digit d
      then (p # d # takeWhile is_digit cs, dropWhile is_digit cs)
      else ([], p # d # cs))"
| "match_fraction s = ([], s)"

text \<open>\<^verbatim>\<open>\d{1,3}(?:,\d{3})*(?:\.\d+)?\<close> at the start of the input.\<close>

definition match_unsigned :: "string \<Rightarrow> string option" where
  "match_unsigned s =
     (let (ds, r1) = take_digits 3 s in
      if ds = [] then None
      else (let (gs, r2) = match_groups r1; (fs, r3) = match_fraction r2
            in Some (ds @ gs @ fs)))"

text \<open>The whole pattern at the start of the input.\<close>

definition match_number :: "string \<Rightarrow> string option" where
  "match_number s =
     (case s of
        [] \<Rightarrow> None
      | c # cs \<Rightarrow>
          (if c = CHR ''-'' then
             (case match_unsigned cs of
                Some m \<Rightarrow> Some (c # m)
              | None \<Rightarrow> match_unsigned s)
           else match_unsigned s))"

text \<open>\<^verbatim>\<open>re.search(pattern, cleaned)\<close>: the match at the leftmost position that has one;
  \<^verbatim>\<open>match.group()\<close> is the text returned.\<close>

fun search_number :: "string \<Rightarrow> string option" where
  "search_number [] = None"
| "search_number (c # cs) =
     (case match_number (c # cs) of Some m \<Rightarrow> Some m | None \<Rightarrow> search_number cs)"

subsection \<open>\<^verbatim>\<open>float(numeric_str)\<close>\<close>

text \<open>
  The text the pattern matched, with its commas removed, is an optional minus sign, digits
  and an optional point with digits; \<^verbatim>\<open>float\<close> accepts every such text, so the
  \<^verbatim>\<open>ValueError\<close> handler of the source is never entered. The model returns the
  number the text denotes.
\<close>

definition digit_val :: "char \<Rightarrow> nat" where
  "digit_val c = of_char c - 48"

definition nat_of_digits :: "string \<Rightarrow> nat" where
  "nat_of_digits ds = foldl (\<lambda>a c. 10 * a + digit_val c) 0 ds"

definition unsigned_value :: "string \<Rightarrow> rat" where
  "unsigned_value s =
     (let ip = takeWhile is_digit s;
          fp = (case dropWhile is_digit s of [] \<Rightarrow> [] | p # f \<Rightarrow> f)
      in of_nat (nat_of_digits ip) + of_nat (nat_of_digits fp) / 10 ^ length fp)"

definition py_float :: "string \<Rightarrow> pyfloat" where
  "py_float s =
     (case s of
        [] \<Rightarrow> Finite 0
      | c # cs \<Rightarrow> if c = CHR ''-'' then Finite (- unsigned_value cs)
                 else Finite (unsigned_value s))"

subsection \<open>\<^verbatim>\<open>extract_numeric_value\<close> and \<^verbatim>\<open>parse_simplified_value\<close>\<close>

definition sentinels :: "string list" where
  "sentinels = [''not found'', ''n/m'', ''nm'', ''n.m.'', '''', ''none'']"

definition extract_numeric_value :: "pyval \<Rightarrow> pyval" where
  "extract_numeric_value value_str =
     (case value_str of
        PStr s \<Rightarrow>
          (if py_lower s \<in> set sentinels then PNone
           else (let cleaned = remove_char (CHR ''%'') (remove_char (CHR ''$'') s) in
                 case search_number cleaned of
                   Some m \<Rightarrow> PFloat (py_float (remove_char (CHR '','') m))
                 | None \<Rightarrow> PNone))
      | _ \<Rightarrow> value_str)"

text \<open>
  \<^verbatim>\<open>f"{v} {unit}"\<close> renders a string as itself and any other value through the
  built-in \<^verbatim>\<open>str\<close>, which is taken as the parameter \<open>fmt\<close>.
\<close>

definition py_format :: "(pyval \<Rightarrow> string) \<Rightarrow> pyval \<Rightarrow> string" where
  "py_format fmt v = (case v of PStr s \<Rightarrow> s | _ \<Rightarrow> fmt v)"

definition parse_simplified_value :: "(pyval \<Rightarrow> string) \<Rightarrow> pyval \<Rightarrow> pyval \<times> pyval" where
  "parse_simplified_value fmt v =
     (if \<not> truthy v \<or> v = PStr ''Not found'' then (PNone, v)
      else (case v of
              PDict d \<Rightarrow>
                (let w = dict_get d ''value'' (PStr ''Not found'') in
                 if w = PStr ''Not found'' then (PNone, PStr ''Not found'')
                 else (let unit = dict_get d ''unit'' (PStr '''') in
                       (extract_numeric_value w,
                        PStr (py_strip (py_format fmt w @ '' '' @ py_format fmt unit)))))
            | _ \<Rightarrow> (extract_numeric_value v, v)))"

subsection \<open>\<^verbatim>\<open>get_value_from_dict\<close>\<close>

text \<open>\<^verbatim>\<open>key in container\<close> for a string key: membership of the key set for a dictionary,
  substring test for a string, element test for a list, \<^verbatim>\<open>TypeError\<close> for the rest.\<close>

fun py_contains :: "pyval \<Rightarrow> string \<Rightarrow> py_error + bool" where
  "py_contains (PDict d) key = Inr (key \<in> fst ` set d)"
| "py_contains (PStr s) key = Inr (str_contains s key)"
| "py_contains (PList xs) key = Inr (PStr key \<in> set xs)"
| "py_contains v key = Inl TypeError"

text \<open>\<^verbatim>\<open>container[key]\<close> for a string key: strings and lists take integer indices only.\<close>

fun py_getitem :: "pyval \<Rightarrow> string \<Rightarrow> py_error + pyval" where
  "py_getitem (PDict d) key = (case map_of d key of Some v \<Rightarrow> Inr v | None \<Rightarrow> Inl KeyError)"
| "py_getitem v key = Inl TypeError"

fun get_value_from_dict ::
  "(pyval \<Rightarrow> string) \<Rightarrow> pyval \<Rightarrow> string list \<Rightarrow> py_error + (pyval \<times> pyval)" where
  "get_value_from_dict fmt data_dict [] = Inr (PNone, PNone)"
| "get_value_from_dict fmt data_dict (key # keys) =
     (case py_contains data_dict key of
        Inl e \<Rightarrow> Inl e
      | Inr True \<Rightarrow>
          (case py_getitem data_dict key of
             Inl e \<Rightarrow> Inl e
           | Inr v \<Rightarrow> Inr (parse_simplified_value fmt v))
      | Inr False \<Rightarrow> get_value_from_dict fmt data_dict keys)"

section \<open>Filing locator: the primary document of a documents-index page\<close>

text \<open>
  \<^verbatim>\<open>SECFilingFetcher.get_filing_document_url\<close>. The network and the HTML parser are
  outside the program: the model takes what they deliver. A request either fails (any
  exception ends in the handler, which returns \<^verbatim>\<open>None\<close>) or delivers a page; a page
  has a table of class \<^verbatim>\<open>tableFile\<close> or not; the table is its list of rows, a row is
  its list of cells, and a cell is the \<^verbatim>\<open>href\<close> of its first link, when it has a link
  that carries one.
\<close>

datatype 'a fetched = Failed | Fetched 'a

type_synonym table_row = "string option list"

type_synonym index_page = "table_row list option"

definition BASE_URL :: string where
  "BASE_URL = ''https://www.sec.gov''"

definition endswith :: "string \<Rightarrow> string \<Rightarrow> bool" where
  "endswith s suf = startswith (rev s) (rev suf)"

text \<open>
  The patterns of the two lists have three shapes: a literal anywhere, a literal followed
  by \<^verbatim>\<open>$\<close> (the end of the text, or the position before a line feed that ends it), and
  \<^verbatim>\<open>ex\d+\<close>. They are searched with \<^verbatim>\<open>re.IGNORECASE\<close>, which on ASCII is a search
  of the lower-cased text for the lower-case literal.
\<close>

datatype pattern = Anywhere string | AtEnd string | ExDigits

fun ex_digit :: "string \<Rightarrow> bool" where
  "ex_digit (e # x # d # cs) =
     ((e = CHR ''e'' \<and> x = CHR ''x'' \<and> is_digit d) \<or> ex_digit (x # d # cs))"
| "ex_digit s = False"

fun re_search_ignorecase :: "pattern \<Rightarrow> string \<Rightarrow> bool" where
  "re_search_ignorecase (Anywhere lit) s = str_contains (py_lower s) lit"
| "re_search_ignorecase (AtEnd lit) s =
     (endswith (py_lower s) lit \<or> endswith (py_lower s) (lit @ [CHR 0x0A]))"
| "re_search_ignorecase ExDigits s = ex_digit (py_lower s)"

definition primary_patterns :: "pattern list" where
  "primary_patterns = [AtEnd ''.htm'', AtEnd ''.html'']"

definition exclude_patterns :: "pattern list" where
  "exclude_patterns =
     [Anywhere ''index.htm'', Anywhere ''_htm.xml'', AtEnd ''.xsd'', AtEnd ''.xml'',
      AtEnd ''.xls'', AtEnd ''.xlsx'', AtEnd ''.pdf'', AtEnd ''.jpg'',
      AtEnd ''.gif'', AtEnd ''.png'', ExDigits, Anywhere ''graphic'']"

definition is_primary :: "string \<Rightarrow> bool" where
  "is_primary doc_href = list_ex (\<lambda>p. re_search_ignorecase p doc_href) primary_patterns"

definition is_excluded :: "string \<Rightarrow> bool" where
  "is_excluded doc_href = list_ex (\<lambda>p. re_search_ignorecase p doc_href) exclude_patterns"

text \<open>\<^verbatim>\<open>s.split('/')\<close> and \<^verbatim>\<open>'/'.join(parts)\<close>.\<close>

fun py_split :: "char \<Rightarrow> string \<Rightarrow> string list" where
  "py_split sep [] = [[]]"
| "py_split sep (c # cs) =
     (if c = sep then [] # py_split sep cs
      else (case py_split sep cs of
              [] \<Rightarrow> [[c]]
            | p # ps \<Rightarrow> (c # p) # ps))"

fun py_join :: "string \<Rightarrow> string list \<Rightarrow> string" where
  "py_join sep [] = []"
| "py_join sep [p] = p"
| "py_join sep (p # q # ps) = p @ sep @ py_join sep (q # ps)"

definition full_url :: "string \<Rightarrow> string \<Rightarrow> string" where
  "full_url documents_url doc_href =
     (if startswith doc_href ''http'' then doc_href
      else if startswith doc_href ''/'' then BASE_URL @ doc_href
      else (let base_path = py_join ''/'' (butlast (py_split (CHR ''/'') documents_url))
            in base_path @ ''/'' @ doc_href))"

definition doc_priority :: "string \<Rightarrow> string \<Rightarrow> string \<Rightarrow> nat" where
  "doc_priority ticker filing_type doc_href =
     (if str_contains (py_lower doc_href) (remove_char (CHR ''-'') (py_lower filing_type))
      then 3
      else if str_contains (py_lower doc_href) (py_lower ticker) then 2
      else if str_contains (py_lower doc_href) ''htm''
              \<and> \<not> str_contains (py_lower doc_href) ''xml'' then 1
      else 0)"

record candidate =
  url :: string
  href :: string
  priority :: nat

text \<open>One pass of the loop body: the candidate a row contributes, if any.\<close>

definition row_candidate ::
  "string \<Rightarrow> string \<Rightarrow> string \<Rightarrow> table_row \<Rightarrow> candidate option" where
  "row_candidate ticker documents_url filing_type cols =
     (if length cols \<ge> 3 then
        (case cols ! 2 of
           None \<Rightarrow> None
         | Some doc_href \<Rightarrow>
             (if is_primary doc_href \<and> \<not> is_excluded doc_href
              then Some \<lparr>url = full_url documents_url doc_href, href = doc_href,
                          priority = doc_priority ticker filing_type doc_href\<rparr>
              else None))
      else None)"

text \<open>The loop over \<^verbatim>\<open>rows[1:]\<close>, appending in row order.\<close>

fun collect_candidates ::
  "string \<Rightarrow> string \<Rightarrow> string \<Rightarrow> table_row list \<Rightarrow> candidate list" where
  "collect_candidates ticker documents_url filing_type [] = []"
| "collect_candidates ticker documents_url filing_type (cols # rows) =
     (case row_candidate ticker documents_url filing_type cols of
        None \<Rightarrow> collect_candidates ticker documents_url filing_type rows
      | Some c \<Rightarrow> c # collect_candidates ticker documents_url filing_type rows)"

definition candidate_docs ::
  "string \<Rightarrow> string \<Rightarrow> string \<Rightarrow> table_row list \<Rightarrow> candidate list" where
  "candidate_docs ticker documents_url filing_type rows =
     collect_candidates ticker documents_url filing_type (drop 1 rows)"

text \<open>
  \<^verbatim>\<open>candidate_docs.sort(key=lambda x: x['priority'], reverse=True)\<close>: Python's sort is
  stable, also with \<^verbatim>\<open>reverse=True\<close>, so it is the stable ascending sort on the
  negated key.
\<close>

definition sort_by_priority_desc :: "candidate list \<Rightarrow> candidate list" where
  "sort_by_priority_desc cs = sort_key (\<lambda>c. - int (priority c)) cs"

definition get_filing_document_url ::
  "string \<Rightarrow> string \<Rightarrow> string \<Rightarrow> index_page fetched \<Rightarrow> string option" where
  "get_filing_document_url ticker documents_url filing_type response =
     (case response of
        Failed \<Rightarrow> None
      | Fetched None \<Rightarrow> None
      | Fetched (Some rows) \<Rightarrow>
          (let cands = candidate_docs ticker documents_url filing_type rows in
           if cands = [] then None
           else Some (url (hd (sort_by_priority_desc cands)))))"

section \<open>Extraction engine: reading the model's response\<close>

text \<open>
  \<^verbatim>\<open>extract_metrics\<close>. The retrieval chain and \<^verbatim>\<open>json.loads\<close> are library code and
  enter as parameters: the chain maps the prompt to the response text or raises, the
  loader maps a text to the parsed value or raises. The clock and the progress messages
  do not reach the result and are left out.
\<close>

datatype py_exception = JSONDecodeError string | OtherException string

fun exception_message :: "py_exception \<Rightarrow> string" where
  "exception_message (JSONDecodeError m) = m"
| "exception_message (OtherException m) = m"

definition create_extraction_prompt :: "string \<Rightarrow> string" where
  "create_extraction_prompt filing_type =
     ''Extract ALL oil & gas metrics from this '' @ filing_type @ '' filing.'' @
     [CHR 0x0A, CHR 0x0A] @
     ''REQUIRED METRICS:'' @ [CHR 0x0A] @
     ''- Production data (oil, NGL, gas, BOE)'' @ [CHR 0x0A] @
     ''- Activity/Well information'' @ [CHR 0x0A] @
     ''- Revenue metrics'' @ [CHR 0x0A] @
     ''- Cost metrics'' @ [CHR 0x0A] @
     ''- Basin/Segment breakdown'' @ [CHR 0x0A, CHR 0x0A] @
     ''Return as structured JSON with all numeric values.''"

text \<open>
  \<^verbatim>\<open>re.search(r'```json\s*(.*?)\s*```', result, re.DOTALL)\<close>. At a position that starts
  with the opening fence the first \<^verbatim>\<open>\s*\<close> takes all the white space there is, and the
  lazy group then grows one character at a time (any character, by \<^verbatim>\<open>re.DOTALL\<close>)
  until what follows is white space and a closing fence. Taking less white space at the
  front cannot help: the positions given back are white space, from which the same closing
  test is made. \<^verbatim>\<open>closes_here\<close> is that test, \<^verbatim>\<open>lazy_group\<close> the group, and
  \<^verbatim>\<open>find_json_fence\<close> the search for the leftmost position with a match, returning
  \<^verbatim>\<open>group(1)\<close>.
\<close>

definition closes_here :: "string \<Rightarrow> bool" where
  "closes_here s = startswith (dropWhile is_space s) ''```''"

fun lazy_group :: "string \<Rightarrow> string option" where
  "lazy_group [] = (if closes_here [] then Some [] else None)"
| "lazy_group (c # cs) =
     (if closes_here (c # cs) then Some []
      else (case lazy_group cs of None \<Rightarrow> None | Some g \<Rightarrow> Some (c # g)))"

fun find_json_fence :: "string \<Rightarrow> string option" where
  "find_json_fence [] = None"
| "find_json_fence (c # cs) =
     (if startswith (c # cs) ''```json'' then
        (case lazy_group (dropWhile is_space (drop 7 (c # cs))) of
           Some g \<Rightarrow> Some g
         | None \<Rightarrow> find_json_fence cs)
      else find_json_fence cs)"

text \<open>The text handed to the parser: the fence contents when there is a fence.\<close>

definition text_to_parse :: "string \<Rightarrow> string" where
  "text_to_parse result = (case find_json_fence result of Some g \<Rightarrow> g | None \<Rightarrow> result)"

definition extract_metrics ::
  "(string \<Rightarrow> py_exception + pyval) \<Rightarrow> (string \<Rightarrow> py_exception + string) \<Rightarrow> string \<Rightarrow> pyval"
where
  "extract_metrics json_loads rag_chain filing_type =
     (case rag_chain (create_extraction_prompt filing_type) of
        Inl e \<Rightarrow> PDict [(''success'', PBool False), (''error'', PStr (exception_message e))]
      | Inr response \<Rightarrow>
          (let result = text_to_parse response in
           case json_loads result of
             Inr parsed \<Rightarrow> PDict [(''success'', PBool True), (''data'', parsed)]
           | Inl (JSONDecodeError m) \<Rightarrow>
               PDict [(''success'', PBool True), (''data'', PStr result),
                      (''format'', PStr ''text'')]
           | Inl (OtherException m) \<Rightarrow>
               PDict [(''success'', PBool False), (''error'', PStr m)]))"

section \<open>Record normaliser\<close>

text \<open>
  The five \<^verbatim>\<open>extract_*_data\<close> helpers and \<^verbatim>\<open>parse_json_file\<close>. The helpers are
  called on whatever the JSON holds, so each operation that Python would refuse on a
  value of the wrong type is an error of the model; \<^verbatim>\<open>parse_json_file\<close> catches every
  exception, reports it and returns \<^verbatim>\<open>None\<close>.
\<close>

text \<open>\<^verbatim>\<open>value.get(key, default)\<close>: only a dictionary has the method.\<close>

fun py_get :: "pyval \<Rightarrow> string \<Rightarrow> pyval \<Rightarrow> py_error + pyval" where
  "py_get (PDict d) key dflt = Inr (dict_get d key dflt)"
| "py_get v key dflt = Inl AttributeError"

text \<open>
  A dictionary display whose entries are \<^verbatim>\<open>get_value_from_dict(group, keys)[0]\<close> under
  a name and \<^verbatim>\<open>get_value_from_dict(group, keys)[1]\<close> under the name with \<^verbatim>\<open>_str\<close>
  appended, entry by entry in the order written. The two calls of an entry have the same
  arguments and so the same result.
\<close>

fun build_fields ::
  "(pyval \<Rightarrow> string) \<Rightarrow> pyval \<Rightarrow> (string \<times> string list) list
     \<Rightarrow> py_error + (string \<times> pyval) list" where
  "build_fields fmt grp [] = Inr []"
| "build_fields fmt grp ((name, keys) # rest) =
     (case get_value_from_dict fmt grp keys of
        Inl e \<Rightarrow> Inl e
      | Inr (num_val, str_val) \<Rightarrow>
          (case build_fields fmt grp rest of
             Inl e \<Rightarrow> Inl e
           | Inr kvs \<Rightarrow> Inr ((name, num_val) # (name @ ''_str'', str_val) # kvs)))"

text \<open>The guard and the subscript that open each helper:
  \<^verbatim>\<open>if not filing_data or key not in filing_data: return {}\<close>, then
  \<^verbatim>\<open>filing_data[key]\<close>. The result is \<^verbatim>\<open>None\<close> for the early return.\<close>

definition metric_group :: "pyval \<Rightarrow> string \<Rightarrow> py_error + pyval option" where
  "metric_group filing_data key =
     (if \<not> truthy filing_data then Inr None
      else (case py_contains filing_data key of
              Inl e \<Rightarrow> Inl e
            | Inr False \<Rightarrow> Inr None
            | Inr True \<Rightarrow>
                (case py_getitem filing_data key of
                   Inl e \<Rightarrow> Inl e
                 | Inr grp \<Rightarrow> Inr (Some grp))))"

definition production_fields :: "(string \<times> string list) list" where
  "production_fields =
     [(''oil_mbbl_per_day'', [''oil_production_mbbl_per_day'', ''oil_mbbl_per_day'']),
      (''ngl_mbbl_per_day'', [''ngl_production_mbbl_per_day'', ''ngl_mbbl_per_day'']),
      (''gas_mmcf_per_day'', [''gas_production_mmcf_per_day'', ''gas_mmcf_per_day'']),
      (''boe_mboe_per_day'', [''total_boe_mboe_per_day'', ''boe_mboe_per_day'']),
      (''oil_mmbls_total'', [''oil_production_mmbl_total'', ''oil_mmbls'']),
      (''ngl_mmbls_total'', [''ngl_production_mmbl_total'', ''ngl_mmbls'']),
      (''gas_bcf_total'', [''gas_production_bcf_total'', ''gas_bcf'']),
      (''boe_mmboe_total'', [''total_boe_mmboe_total'', ''boe_mmboe''])]"

definition extract_production_data ::
  "(pyval \<Rightarrow> string) \<Rightarrow> pyval \<Rightarrow> py_error + (string \<times> pyval) list" where
  "extract_production_data fmt filing_data =
     (case metric_group filing_data ''production'' of
        Inl e \<Rightarrow> Inl e
      | Inr None \<Rightarrow> Inr []
      | Inr (Some prd) \<Rightarrow> build_fields fmt prd production_fields)"

text \<open>The loops of \<^verbatim>\<open>extract_activity_data\<close> and \<^verbatim>\<open>extract_cost_data\<close>:
  \<^verbatim>\<open>parse_simplified_value(group.get(json_key, ''))\<close> stored under the result key and
  under the result key with \<^verbatim>\<open>_str\<close> appended.\<close>

fun parse_fields ::
  "(pyval \<Rightarrow> string) \<Rightarrow> pyval \<Rightarrow> (string \<times> string) list
     \<Rightarrow> py_error + (string \<times> pyval) list" where
  "parse_fields fmt grp [] = Inr []"
| "parse_fields fmt grp ((result_key, json_key) # rest) =
     (case py_get grp json_key (PStr '''') of
        Inl e \<Rightarrow> Inl e
      | Inr v \<Rightarrow>
          (case parse_simplified_value fmt v of
             (num_val, str_val) \<Rightarrow>
               (case parse_fields fmt grp rest of
                  Inl e \<Rightarrow> Inl e
                | Inr kvs \<Rightarrow>
                    Inr ((result_key, num_val) # (result_key @ ''_str'', str_val) # kvs))))"

definition activity_fields :: "string list" where
  "activity_fields =
     [''drilling_rigs'', ''gross_wells_drilled'', ''gross_wells_completed'',
      ''gross_wells_til'', ''net_wells_til'', ''avg_lateral_length_drilled'',
      ''avg_lateral_length_completed'', ''working_interest_percent'']"

definition extract_activity_data ::
  "(pyval \<Rightarrow> string) \<Rightarrow> pyval \<Rightarrow> py_error + (string \<times> pyval) list" where
  "extract_activity_data fmt filing_data =
     (case metric_group filing_data ''activity'' of
        Inl e \<Rightarrow> Inl e
      | Inr None \<Rightarrow> Inr []
      | Inr (Some activity) \<Rightarrow>
          parse_fields fmt activity (map (\<lambda>field. (field, field)) activity_fields))"

definition revenue_fields :: "(string \<times> string list) list" where
  "revenue_fields =
     [(''oil_revenue_million'', [''oil_revenue_million_usd'', ''oil_revenue'']),
      (''ngl_revenue_million'', [''ngl_revenue_million_usd'', ''ngl_revenue'']),
      (''gas_revenue_million'', [''gas_revenue_million_usd'', ''gas_revenue'']),
      (''total_revenue_million'', [''total_revenue_million_usd'', ''total_revenue'']),
      (''revenue_per_boe'', [''revenue_per_boe_usd'', ''revenue_per_boe''])]"

definition extract_revenue_data ::
  "(pyval \<Rightarrow> string) \<Rightarrow> pyval \<Rightarrow> py_error + (string \<times> pyval) list" where
  "extract_revenue_data fmt filing_data =
     (case metric_group filing_data ''revenue'' of
        Inl e \<Rightarrow> Inl e
      | Inr None \<Rightarrow> Inr []
      | Inr (Some revenue) \<Rightarrow> build_fields fmt revenue revenue_fields)"

definition pricing_fields :: "(string \<times> string list) list" where
  "pricing_fields =
     [(''realized_price_oil_per_bbl'',
         [''realized_price_oil_usd_per_bbl'', ''oil_price_realized'', ''oil_price_per_bbl'']),
      (''realized_price_ngl_per_bbl'',
         [''realized_price_ngl_usd_per_bbl'', ''ngl_price_realized'', ''ngl_price_per_bbl'']),
      (''realized_price_gas_per_mcf'',
         [''realized_price_gas_usd_per_mcf'', ''gas_price_realized'', ''gas_price_per_mcf'']),
      (''realized_price_boe'',
         [''realized_price_boe_usd_per_boe'', ''boe_price_realized'', ''boe_price''])]"

definition extract_pricing_data ::
  "(pyval \<Rightarrow> string) \<Rightarrow> pyval \<Rightarrow> py_error + (string \<times> pyval) list" where
  "extract_pricing_data fmt filing_data =
     (case metric_group filing_data ''revenue'' of
        Inl e \<Rightarrow> Inl e
      | Inr None \<Rightarrow> Inr []
      | Inr (Some revenue) \<Rightarrow> build_fields fmt revenue pricing_fields)"

definition cost_fields :: "(string \<times> string) list" where
  "cost_fields =
     [(''production_cost_per_boe'', ''production_cost_per_boe''),
      (''lease_operating_expense_per_boe'', ''lease_operating_expense_per_boe''),
      (''transportation_cost_per_boe'', ''transportation_cost_per_boe''),
      (''production_taxes_per_boe'', ''production_taxes_per_boe''),
      (''ddna_per_boe'', ''ddna_per_boe'')]"

text \<open>A capital expenditure field:
  \<^verbatim>\<open>costs.get(current, costs.get(legacy, ''))\<close>, parsed and stored under the result key
  and the result key with \<^verbatim>\<open>_str\<close>. The inner \<^verbatim>\<open>get\<close> is evaluated first.\<close>

definition capex_field ::
  "(pyval \<Rightarrow> string) \<Rightarrow> pyval \<Rightarrow> string \<Rightarrow> string \<Rightarrow> string
     \<Rightarrow> py_error + (string \<times> pyval) list" where
  "capex_field fmt costs result_key current legacy =
     (case py_get costs legacy (PStr '''') of
        Inl e \<Rightarrow> Inl e
      | Inr fallback \<Rightarrow>
          (case py_get costs current fallback of
             Inl e \<Rightarrow> Inl e
           | Inr capex_value \<Rightarrow>
               (case parse_simplified_value fmt capex_value of
                  (num_val, str_val) \<Rightarrow>
                    Inr [(result_key, num_val), (result_key @ ''_str'', str_val)])))"

definition extract_cost_data ::
  "(pyval \<Rightarrow> string) \<Rightarrow> pyval \<Rightarrow> py_error + (string \<times> pyval) list" where
  "extract_cost_data fmt filing_data =
     (case metric_group filing_data ''costs'' of
        Inl e \<Rightarrow> Inl e
      | Inr None \<Rightarrow> Inr []
      | Inr (Some costs) \<Rightarrow>
          (case parse_fields fmt costs cost_fields of
             Inl e \<Rightarrow> Inl e
           | Inr per_boe \<Rightarrow>
          (case capex_field fmt costs ''development_capex_million''
                  ''development_capex_million_usd'' ''development_capex'' of
             Inl e \<Rightarrow> Inl e
           | Inr dev_capex \<Rightarrow>
          (case capex_field fmt costs ''exploration_capex_million''
                  ''exploration_capex_million_usd'' ''exploration_capex'' of
             Inl e \<Rightarrow> Inl e
           | Inr exp_capex \<Rightarrow>
          (case capex_field fmt costs ''total_capex_million''
                  ''total_capex_million_usd'' ''total_capex'' of
             Inl e \<Rightarrow> Inl e
           | Inr tot_capex \<Rightarrow> Inr (per_boe @ dev_capex @ exp_capex @ tot_capex))))))"

subsection \<open>The canonical record and \<^verbatim>\<open>parse_json_file\<close>\<close>

record company_info =
  ticker :: pyval
  cik :: pyval
  company_name :: pyval
  filing_type :: pyval
  filing_date :: pyval
  time_period :: pyval
  quarter :: pyval
  year :: pyval

record canonical_record =
  info :: company_info
  production :: "(string \<times> pyval) list"
  activity :: "(string \<times> pyval) list"
  revenue :: "(string \<times> pyval) list"
  pricing :: "(string \<times> pyval) list"
  costs :: "(string \<times> pyval) list"
  basins :: pyval
  raw_filing_data :: pyval

text \<open>The part of \<^verbatim>\<open>parse_json_file\<close> after \<^verbatim>\<open>json.load\<close>, up to the handler:
  \<^verbatim>\<open>Inr None\<close> is the early \<^verbatim>\<open>return None\<close> on empty filing data.\<close>

definition build_record :: "(pyval \<Rightarrow> string) \<Rightarrow> pyval \<Rightarrow> py_error + canonical_record option"
where
  "build_record fmt data =
     (case py_get data ''companyName'' (PStr ''UNKNOWN'') of Inl e \<Rightarrow> Inl e | Inr tk \<Rightarrow>
     (case py_get data ''cik'' (PStr '''') of Inl e \<Rightarrow> Inl e | Inr ck \<Rightarrow>
     (case py_get data ''companyFullName'' (PStr '''') of Inl e \<Rightarrow> Inl e | Inr nm \<Rightarrow>
     (case py_get data ''fileType'' PNone of Inl e \<Rightarrow> Inl e | Inr ft \<Rightarrow>
     (case py_get data ''secFilingDate'' PNone of Inl e \<Rightarrow> Inl e | Inr fd \<Rightarrow>
     (case py_get data ''data'' (PDict []) of Inl e \<Rightarrow> Inl e | Inr filing_data \<Rightarrow>
       if \<not> truthy filing_data then Inr None else
     (case py_get filing_data ''time_period'' (PStr '''') of Inl e \<Rightarrow> Inl e | Inr tp \<Rightarrow>
     (case py_get filing_data ''quarter'' (PStr '''') of Inl e \<Rightarrow> Inl e | Inr qu \<Rightarrow>
     (case py_get filing_data ''year'' (PStr '''') of Inl e \<Rightarrow> Inl e | Inr yr \<Rightarrow>
     (case extract_production_data fmt filing_data of Inl e \<Rightarrow> Inl e | Inr prd \<Rightarrow>
     (case extract_activity_data fmt filing_data of Inl e \<Rightarrow> Inl e | Inr act \<Rightarrow>
     (case extract_revenue_data fmt filing_data of Inl e \<Rightarrow> Inl e | Inr rvn \<Rightarrow>
     (case extract_pricing_data fmt filing_data of Inl e \<Rightarrow> Inl e | Inr pri \<Rightarrow>
     (case extract_cost_data fmt filing_data of Inl e \<Rightarrow> Inl e | Inr cst \<Rightarrow>
     (case py_get filing_data ''basins'' (PDict []) of Inl e \<Rightarrow> Inl e | Inr basins_dict \<Rightarrow>
       Inr (Some \<lparr>info = \<lparr>ticker = tk, cik = ck, company_name = nm, filing_type = ft,
                            filing_date = fd, time_period = tp, quarter = qu, year = yr\<rparr>,
                   production = prd, activity = act, revenue = rvn, pricing = pri,
                   costs = cst, basins = basins_dict,
                   raw_filing_data = filing_data\<rparr>))))))))))))))))"

text \<open>
  What the function can see and touch: the files it can open and the console it prints
  to. A path without a file stands for any failure of \<^verbatim>\<open>open\<close>.
\<close>

datatype console_line = ErrorParsing string

record world =
  files :: "string \<rightharpoonup> string"
  console :: "console_line list"

definition parse_json_file ::
  "(string \<Rightarrow> py_exception + pyval) \<Rightarrow> (pyval \<Rightarrow> string) \<Rightarrow> world \<Rightarrow> string
     \<Rightarrow> world \<times> canonical_record option" where
  "parse_json_file json_loads fmt w json_path =
     (let failed = (w\<lparr>console := console w @ [ErrorParsing json_path]\<rparr>, None) in
      case files w json_path of
        None \<Rightarrow> failed
      | Some text \<Rightarrow>
          (case json_loads text of
             Inl e \<Rightarrow> failed
           | Inr data \<Rightarrow>
               (case build_record fmt data of
                  Inl e \<Rightarrow> failed
                | Inr result \<Rightarrow> (w, result))))"

section \<open>Relational store\<close>

text \<open>
  \<^verbatim>\<open>check_duplicate_filing\<close> and \<^verbatim>\<open>insert_data_to_database\<close>. The database server is
  outside the program; the model keeps of it what the statements of the source rely on.
  A table is the list of its rows, a row the list of its columns with the values bound to
  them (\<^verbatim>\<open>None\<close> is \<^verbatim>\<open>NULL\<close>; the serial \<^verbatim>\<open>id\<close> and the \<^verbatim>\<open>created_at\<close> stamp are
  left out). Values are compared as they were bound: the driver's adaptation and the
  coercion into the column type are not modelled. A connection holds the committed
  tables, the tables as the open transaction sees them, and whether the transaction is
  aborted. Whether the server takes a statement (the types adapt, the lengths fit) is the
  parameter \<open>accepts\<close>; a refused statement raises \<^verbatim>\<open>psycopg2.Error\<close> and aborts the
  transaction, and so does any statement sent in an aborted transaction.
\<close>

type_synonym row = "(string \<times> pyval) list"

type_synonym database = "string \<Rightarrow> row list"

record connection =
  committed :: database
  working :: database
  aborted :: bool

datatype statement = SelectCount pyval pyval pyval | InsertInto string row

definition column :: "row \<Rightarrow> string \<Rightarrow> pyval" where
  "column r c = dict_get r c PNone"

text \<open>SQL equality as a condition: a comparison with \<^verbatim>\<open>NULL\<close> is not true.\<close>

definition sql_eq :: "pyval \<Rightarrow> pyval \<Rightarrow> bool" where
  "sql_eq a b = (a \<noteq> PNone \<and> b \<noteq> PNone \<and> a = b)"

text \<open>\<^verbatim>\<open>INSERT ... ON CONFLICT (on_conflict) DO UPDATE SET c = EXCLUDED.c, ...\<close>: the row
  that agrees with the new one on the conflict columns gets the listed columns of the new
  row and keeps its other cells (the order of the cells of a row does not matter);
  without such a row the new row is added.\<close>

definition conflicts :: "string list \<Rightarrow> row \<Rightarrow> row \<Rightarrow> bool" where
  "conflicts on_conflict new old =
     list_all (\<lambda>c. sql_eq (column new c) (column old c)) on_conflict"

definition set_columns :: "string list \<Rightarrow> row \<Rightarrow> row \<Rightarrow> row" where
  "set_columns cols new old =
     map (\<lambda>c. (c, column new c)) cols @ filter (\<lambda>(c, v). c \<notin> set cols) old"

fun upsert :: "string list \<Rightarrow> string list \<Rightarrow> row \<Rightarrow> row list \<Rightarrow> row list" where
  "upsert on_conflict cols new [] = [new]"
| "upsert on_conflict cols new (old # rows) =
     (if conflicts on_conflict new old then set_columns cols new old # rows
      else old # upsert on_conflict cols new rows)"

text \<open>An upsert as the source writes it: table, conflict columns, updated columns and
  the row of bound values.\<close>

type_synonym upsert_statement = "string \<times> string list \<times> string list \<times> row"

text \<open>\<^verbatim>\<open>cursor.execute\<close> of an upsert: \<^verbatim>\<open>Inl\<close> is \<^verbatim>\<open>psycopg2.Error\<close> raised.\<close>

definition execute_upsert ::
  "(statement \<Rightarrow> bool) \<Rightarrow> upsert_statement \<Rightarrow> connection \<Rightarrow> connection + connection" where
  "execute_upsert accepts stmt conn =
     (case stmt of (table, on_conflict, cols, new) \<Rightarrow>
        if aborted conn \<or> \<not> accepts (InsertInto table new)
        then Inl (conn\<lparr>aborted := True\<rparr>)
        else Inr (conn\<lparr>working :=
               (working conn)(table := upsert on_conflict cols new (working conn table))\<rparr>))"

fun execute_all ::
  "(statement \<Rightarrow> bool) \<Rightarrow> upsert_statement list \<Rightarrow> connection \<Rightarrow> connection + connection"
where
  "execute_all accepts [] conn = Inr conn"
| "execute_all accepts (stmt # stmts) conn =
     (case execute_upsert accepts stmt conn of
        Inl c \<Rightarrow> Inl c
      | Inr c \<Rightarrow> execute_all accepts stmts c)"

definition commit :: "connection \<Rightarrow> connection" where
  "commit conn =
     (if aborted conn then conn\<lparr>working := committed conn, aborted := False\<rparr>
      else conn\<lparr>committed := working conn\<rparr>)"

definition rollback :: "connection \<Rightarrow> connection" where
  "rollback conn = conn\<lparr>working := committed conn, aborted := False\<rparr>"

text \<open>\<^verbatim>\<open>check_duplicate_filing\<close>: the count of summary rows with this company name,
  filing type and filing date is positive. A \<^verbatim>\<open>psycopg2.Error\<close> is caught inside and
  answered with \<^verbatim>\<open>False\<close>; the transaction stays aborted.\<close>

definition summary_matches :: "pyval \<Rightarrow> pyval \<Rightarrow> pyval \<Rightarrow> row \<Rightarrow> bool" where
  "summary_matches name ftype fdate r =
     (sql_eq (column r ''company_name'') name \<and> sql_eq (column r ''filing_type'') ftype
      \<and> sql_eq (column r ''filing_date'') fdate)"

definition check_duplicate_filing ::
  "(statement \<Rightarrow> bool) \<Rightarrow> pyval \<Rightarrow> pyval \<Rightarrow> pyval \<Rightarrow> connection \<Rightarrow> bool \<times> connection" where
  "check_duplicate_filing accepts name ftype fdate conn =
     (if aborted conn \<or> \<not> accepts (SelectCount name ftype fdate)
      then (False, conn\<lparr>aborted := True\<rparr>)
      else (length (filter (summary_matches name ftype fdate)
                     (working conn ''company_summary'')) > 0, conn))"

subsection \<open>The rows \<^verbatim>\<open>insert_data_to_database\<close> binds\<close>

definition clean_val :: "pyval \<Rightarrow> pyval" where
  "clean_val val = (if \<not> truthy val \<or> val = PStr ''Not found'' then PNone else val)"

text \<open>The metric cells of a statement: \<^verbatim>\<open>clean_val(grp.get(key))\<close>, or
  \<^verbatim>\<open>clean_val(grp.get(key, 'Not found'))\<close> for a basin, under the column they are bound
  to.\<close>

definition metric_cells ::
  "(string \<times> pyval) list \<Rightarrow> pyval \<Rightarrow> (string \<times> string) list \<Rightarrow> row" where
  "metric_cells grp dflt spec = map (\<lambda>(col, key). (col, clean_val (dict_get grp key dflt))) spec"

definition natural_key :: "string list" where
  "natural_key = [''ticker'', ''filing_date'', ''filing_type'']"

definition production_columns :: "(string \<times> string) list" where
  "production_columns =
     [(''oil_mbbl_per_day'', ''oil_mbbl_per_day_str''),
      (''ngl_mbbl_per_day'', ''ngl_mbbl_per_day_str''),
      (''gas_mmcf_per_day'', ''gas_mmcf_per_day_str''),
      (''boe_mboe_per_day'', ''boe_mboe_per_day_str''),
      (''oil_mmbls_total'', ''oil_mmbls_total_str''),
      (''ngl_mmbls_total'', ''ngl_mmbls_total_str''),
      (''gas_bcf_total'', ''gas_bcf_total_str''),
      (''boe_mmboe_total'', ''boe_mmboe_total_str'')]"

definition activity_columns :: "(string \<times> string) list" where
  "activity_columns =
     [(''drilling_rigs'', ''drilling_rigs_str''),
      (''gross_wells_drilled'', ''gross_wells_drilled_str''),
      (''gross_wells_completed'', ''gross_wells_completed_str''),
      (''gross_wells_til'', ''gross_wells_til_str''),
      (''net_wells_til'', ''net_wells_til_str''),
      (''avg_lateral_length_drilled'', ''avg_lateral_length_drilled_str''),
      (''avg_lateral_length_completed'', ''avg_lateral_length_completed_str''),
      (''working_interest_percent'', ''working_interest_percent_str'')]"

definition revenue_columns :: "(string \<times> string) list" where
  "revenue_columns =
     [(''oil_revenue'', ''oil_revenue_million_str''),
      (''ngl_revenue'', ''ngl_revenue_million_str''),
      (''gas_revenue'', ''gas_revenue_million_str''),
      (''total_revenue'', ''total_revenue_million_str''),
      (''revenue_per_boe'', ''revenue_per_boe_str'')]"

definition pricing_columns :: "(string \<times> string) list" where
  "pricing_columns =
     [(''oil_price'', ''realized_price_oil_per_bbl_str''),
      (''ngl_price'', ''realized_price_ngl_per_bbl_str''),
      (''gas_price'', ''realized_price_gas_per_mcf_str''),
      (''boe_price'', ''realized_price_boe_str'')]"

definition cost_columns :: "(string \<times> string) list" where
  "cost_columns =
     [(''production_cost_per_boe'', ''production_cost_per_boe_str''),
      (''lease_operating_expense_per_boe'', ''lease_operating_expense_per_boe_str''),
      (''transportation_cost_per_boe'', ''transportation_cost_per_boe_str''),
      (''production_taxes_per_boe'', ''production_taxes_per_boe_str''),
      (''development_capex'', ''development_capex_million_str''),
      (''exploration_capex'', ''exploration_capex_million_str''),
      (''total_capex'', ''total_capex_million_str''),
      (''ddna_per_boe'', ''ddna_per_boe_str'')]"

definition basin_columns :: "(string \<times> string) list" where
  "basin_columns =
     [(''gas_reserves'', ''gas_production_bcf_total''),
      (''gas_per_day'', ''gas_production_mmcf_per_day''),
      (''oil_reserves'', ''oil_production_mmbl_total''),
      (''oil_per_day'', ''oil_production_mbbl_per_day''),
      (''ngl_reserves'', ''ngl_production_mmbl_total''),
      (''ngl_per_day'', ''ngl_production_mbbl_per_day''),
      (''total_boe'', ''total_boe_mmboe_total''),
      (''boe_per_day'', ''total_boe_mboe_per_day'')]"

text \<open>The leading cells of the five metric rows after the summary row:
  ticker, company name, filing type, filing date, quarter, year.\<close>

definition filing_cells :: "company_info \<Rightarrow> row" where
  "filing_cells i =
     [(''ticker'', ticker i), (''company_name'', company_name i),
      (''filing_type'', filing_type i), (''filing_date'', filing_date i),
      (''quarter'', quarter i), (''year'', year i)]"

definition summary_statement :: "canonical_record \<Rightarrow> upsert_statement" where
  "summary_statement d =
     (''company_summary'', natural_key, [''cik'', ''company_name'', ''time_period''],
      [(''ticker'', ticker (info d)), (''cik'', cik (info d)),
       (''company_name'', company_name (info d)), (''filing_type'', filing_type (info d)),
       (''filing_date'', filing_date (info d)), (''time_period'', time_period (info d))])"

definition production_statement :: "canonical_record \<Rightarrow> upsert_statement" where
  "production_statement d =
     (''production_data'', natural_key, map fst production_columns,
      [(''ticker'', ticker (info d)), (''company_name'', company_name (info d)),
       (''filing_type'', filing_type (info d)), (''filing_date'', filing_date (info d)),
       (''time_period'', time_period (info d)), (''quarter'', quarter (info d)),
       (''year'', year (info d))]
      @ metric_cells (production d) PNone production_columns)"

definition activity_statement :: "canonical_record \<Rightarrow> upsert_statement" where
  "activity_statement d =
     (''activity_wells'', natural_key, map fst activity_columns,
      filing_cells (info d) @ metric_cells (activity d) PNone activity_columns)"

definition revenue_statement :: "canonical_record \<Rightarrow> upsert_statement" where
  "revenue_statement d =
     (''revenue_data'', natural_key, map fst revenue_columns,
      filing_cells (info d) @ metric_cells (revenue d) PNone revenue_columns)"

definition pricing_statement :: "canonical_record \<Rightarrow> upsert_statement" where
  "pricing_statement d =
     (''realized_prices'', natural_key, map fst pricing_columns,
      filing_cells (info d) @ metric_cells (pricing d) PNone pricing_columns)"

definition cost_statement :: "canonical_record \<Rightarrow> upsert_statement" where
  "cost_statement d =
     (''cost_data'', natural_key, map fst cost_columns,
      filing_cells (info d) @ metric_cells (costs d) PNone cost_columns)"

definition record_statements :: "canonical_record \<Rightarrow> upsert_statement list" where
  "record_statements d =
     [summary_statement d, production_statement d, activity_statement d,
      revenue_statement d, pricing_statement d, cost_statement d]"

definition basin_key :: "string list" where
  "basin_key = [''ticker'', ''sec_filing_date'', ''file_type'', ''basin_name'']"

definition basin_statement ::
  "canonical_record \<Rightarrow> string \<Rightarrow> (string \<times> pyval) list \<Rightarrow> upsert_statement" where
  "basin_statement d basin_name basin_data =
     (''basin_data'', basin_key, map fst basin_columns,
      [(''ticker'', ticker (info d)), (''company_name'', company_name (info d)),
       (''sec_filing_date'', filing_date (info d)), (''file_type'', filing_type (info d)),
       (''basin_name'', PStr basin_name)]
      @ metric_cells basin_data (PStr ''Not found'') basin_columns)"

text \<open>The loop over \<^verbatim>\<open>basins_dict.items()\<close>: an entry whose value is not a dictionary
  is passed over.\<close>

fun basin_statements ::
  "canonical_record \<Rightarrow> (string \<times> pyval) list \<Rightarrow> upsert_statement list" where
  "basin_statements d [] = []"
| "basin_statements d ((basin_name, PDict basin_data) # entries) =
     basin_statement d basin_name basin_data # basin_statements d entries"
| "basin_statements d ((basin_name, v) # entries) = basin_statements d entries"

subsection \<open>\<^verbatim>\<open>insert_data_to_database\<close>\<close>

text \<open>How one pass of the loop over \<^verbatim>\<open>all_data\<close> ends: normally, with
  \<^verbatim>\<open>psycopg2.Error\<close>, or with another exception (\<^verbatim>\<open>.items()\<close> on a basin value that is
  not a dictionary), which the function does not catch.\<close>

datatype step = Continue connection | PsycopgError connection | PythonError py_error connection

definition insert_record :: "(statement \<Rightarrow> bool) \<Rightarrow> canonical_record \<Rightarrow> connection \<Rightarrow> step"
where
  "insert_record accepts d conn =
     (case check_duplicate_filing accepts (company_name (info d)) (filing_type (info d))
             (filing_date (info d)) conn of
        (True, c) \<Rightarrow> Continue c
      | (False, c) \<Rightarrow>
          (case execute_all accepts (record_statements d) c of
             Inl c' \<Rightarrow> PsycopgError c'
           | Inr c' \<Rightarrow>
               (case basins d of
                  PDict entries \<Rightarrow>
                    (case execute_all accepts (basin_statements d entries) c' of
                       Inl c'' \<Rightarrow> PsycopgError c''
                     | Inr c'' \<Rightarrow> Continue c'')
                | _ \<Rightarrow> PythonError AttributeError c')))"

fun insert_all :: "(statement \<Rightarrow> bool) \<Rightarrow> canonical_record list \<Rightarrow> connection \<Rightarrow> step" where
  "insert_all accepts [] conn = Continue conn"
| "insert_all accepts (d # ds) conn =
     (case insert_record accepts d conn of
        Continue c \<Rightarrow> insert_all accepts ds c
      | PsycopgError c \<Rightarrow> PsycopgError c
      | PythonError e c \<Rightarrow> PythonError e c)"

text \<open>The whole function: \<^verbatim>\<open>Inr (True, _)\<close> after the commit, \<^verbatim>\<open>Inr (False, _)\<close> after
  the rollback of the handler, \<^verbatim>\<open>Inl\<close> for the exception that leaves the function with
  the transaction still open.\<close>

definition insert_data_to_database ::
  "(statement \<Rightarrow> bool) \<Rightarrow> canonical_record list \<Rightarrow> connection
     \<Rightarrow> (py_error \<times> connection) + (bool \<times> connection)" where
  "insert_data_to_database accepts all_data conn =
     (case insert_all accepts all_data conn of
        Continue c \<Rightarrow> Inr (True, commit c)
      | PsycopgError c \<Rightarrow> Inr (False, rollback c)
      | PythonError e c \<Rightarrow> Inl (e, c))"

subsection \<open>The metric columns of the tables\<close>

text \<open>The columns that hold metric values, table by table: the ones the statements bind
  through \<^verbatim>\<open>clean_val\<close>. The summary table has none.\<close>

definition metric_columns :: "string \<Rightarrow> string list" where
  "metric_columns table =
     (if table = ''production_data'' then map fst production_columns
      else if table = ''activity_wells'' then map fst activity_columns
      else if table = ''revenue_data'' then map fst revenue_columns
      else if table = ''realized_prices'' then map fst pricing_columns
      else if table = ''cost_data'' then map fst cost_columns
      else if table = ''basin_data'' then map fst basin_columns
      else [])"

definition row_without_sentinel :: "string \<Rightarrow> row \<Rightarrow> bool" where
  "row_without_sentinel table r =
     list_all (\<lambda>col. column r col \<noteq> PStr ''Not found'') (metric_columns table)"

definition no_sentinel_metrics :: "database \<Rightarrow> bool" where
  "no_sentinel_metrics db = (\<forall>table. list_all (row_without_sentinel table) (db table))"

definition statement_without_sentinel :: "upsert_statement \<Rightarrow> bool" where
  "statement_without_sentinel stmt =
     (case stmt of (table, on_conflict, cols, new) \<Rightarrow> row_without_sentinel table new)"

text \<open>The connection a pass of the loop leaves behind, however it ends.\<close>

fun step_connection :: "step \<Rightarrow> connection" where
  "step_connection (Continue c) = c"
| "step_connection (PsycopgError c) = c"
| "step_connection (PythonError e c) = c"

text \<open>The rows of a table that agree with a row on the conflict columns.\<close>

definition rows_with_key :: "string list \<Rightarrow> row \<Rightarrow> row list \<Rightarrow> row list" where
  "rows_with_key on_conflict new rows = filter (conflicts on_conflict new) rows"

section \<open>Properties of the value normaliser\<close>

lemmas value_eval =
  parse_simplified_value_def extract_numeric_value_def py_lower_def lower_char_def
  sentinels_def remove_char_def match_number_def match_unsigned_def is_digit_def
  py_float_def unsigned_value_def nat_of_digits_def digit_val_def eval_nat_numeral

lemma extract_numeric_value_sentinel:
  "py_lower s \<in> set sentinels \<Longrightarrow> extract_numeric_value (PStr s) = PNone"
  by (simp add: extract_numeric_value_def)

text \<open>The three value scenarios of the specification, run on the model.\<close>

lemma scenario_value_with_unit:
  "parse_simplified_value fmt (PStr ''148.4 MBbl/d'')
     = (PFloat (Finite (1484 / 10)), PStr ''148.4 MBbl/d'')"
  by (simp add: value_eval)

lemma scenario_grouped_currency:
  "parse_simplified_value fmt (PStr ''$1,774 million'')
     = (PFloat (Finite 1774), PStr ''$1,774 million'')"
  by (simp add: value_eval)

lemma scenario_not_found:
  "parse_simplified_value fmt (PStr ''Not found'') = (PNone, PStr ''Not found'')"
  by (simp add: parse_simplified_value_def)

text \<open>
  Claim C1. A raw value that starts with a signed decimal number should come back with
  that number as its numeric component and with the raw text as its display component.
  The pattern takes at most three digits before it looks for a comma group, so a number
  written with four or more digits and no commas is cut after its third digit: on
  \<^verbatim>\<open>"3021.1 MMcf/d"\<close>, the gas example of the extraction prompt's own schema, the
  numeric component is 302 and not 3021.1. The display component is the raw text.
\<close>

theorem parse_simplified_value_ungrouped_digits:
  "parse_simplified_value fmt (PStr ''3021.1 MMcf/d'')
     = (PFloat (Finite 302), PStr ''3021.1 MMcf/d'')
   \<and> py_float ''3021.1'' = Finite (30211 / 10)
   \<and> Finite 302 \<noteq> py_float ''3021.1''"
proof -
  have code: "parse_simplified_value fmt (PStr ''3021.1 MMcf/d'')
                = (PFloat (Finite 302), PStr ''3021.1 MMcf/d'')"
    by (simp add: value_eval)
  have denoted: "py_float ''3021.1'' = Finite (30211 / 10)"
    by (simp add: py_float_def unsigned_value_def nat_of_digits_def digit_val_def
        is_digit_def)
  from code denoted show ?thesis by simp
qed

theorem parse_simplified_value_ungrouped_digits_witness:
  "parse_simplified_value (\<lambda>v. []) (PStr ''3021.1 MMcf/d'')
     = (PFloat (Finite 302), PStr ''3021.1 MMcf/d'')"
  using parse_simplified_value_ungrouped_digits [of "\<lambda>v. []"] by simp

text \<open>
  Claim C2. On every sentinel text, in any letter case (\<^verbatim>\<open>"Not found"\<close>, \<^verbatim>\<open>"n/m"\<close>,
  \<^verbatim>\<open>"nm"\<close>, \<^verbatim>\<open>"n.m."\<close>, the empty string, \<^verbatim>\<open>"none"\<close>),
  \<^verbatim>\<open>parse_simplified_value\<close> returns the pair of \<^verbatim>\<open>None\<close> and the text it was given.
  The function has no raising path, so the model returns a plain pair.
\<close>

theorem parse_simplified_value_sentinel:
  "py_lower s \<in> set sentinels \<Longrightarrow> parse_simplified_value fmt (PStr s) = (PNone, PStr s)"
  by (simp add: parse_simplified_value_def extract_numeric_value_sentinel)

theorem parse_simplified_value_sentinel_witness:
  "py_lower ''N/M'' \<in> set sentinels \<and> py_lower ''NOT FOUND'' \<in> set sentinels
   \<and> parse_simplified_value (\<lambda>v. []) (PStr ''N/M'') = (PNone, PStr ''N/M'')
   \<and> parse_simplified_value (\<lambda>v. []) (PStr ''NOT FOUND'') = (PNone, PStr ''NOT FOUND'')"
proof -
  have a: "py_lower ''N/M'' \<in> set sentinels"
    by (simp add: py_lower_def lower_char_def sentinels_def)
  have b: "py_lower ''NOT FOUND'' \<in> set sentinels"
    by (simp add: py_lower_def lower_char_def sentinels_def)
  show ?thesis
    using a b parse_simplified_value_sentinel [OF a, of "\<lambda>v. []"]
      parse_simplified_value_sentinel [OF b, of "\<lambda>v. []"]
    by simp
qed

text \<open>
  Claim C9. A value that is not a string, is truthy and is not a dictionary (a bare JSON
  number, say) is different from \<^verbatim>\<open>"Not found"\<close>, passes through
  \<^verbatim>\<open>extract_numeric_value\<close> unchanged, and \<^verbatim>\<open>parse_simplified_value\<close> returns it as
  both components.
\<close>

theorem parse_simplified_value_passthrough:
  "truthy v \<Longrightarrow> \<not> is_str v \<Longrightarrow> \<not> is_dict v \<Longrightarrow>
   v \<noteq> PStr ''Not found'' \<and> extract_numeric_value v = v
   \<and> parse_simplified_value fmt v = (v, v)"
  by (cases v) (simp_all add: parse_simplified_value_def extract_numeric_value_def)

theorem parse_simplified_value_passthrough_witness:
  "truthy (PInt 19) \<and> \<not> is_str (PInt 19) \<and> \<not> is_dict (PInt 19)
   \<and> parse_simplified_value (\<lambda>v. []) (PInt 19) = (PInt 19, PInt 19)"
  using parse_simplified_value_passthrough [of "PInt 19" "\<lambda>v. []"] by simp

section \<open>Properties of the key resolution\<close>

lemma get_value_from_dict_absent:
  "\<forall>key \<in> set keys. map_of d key = None \<Longrightarrow>
   get_value_from_dict fmt (PDict d) keys = Inr (PNone, PNone)"
  by (induction keys) (simp_all add: map_of_eq_None_iff)

lemma get_value_from_dict_skip:
  "\<forall>a \<in> set absent. map_of d a = None \<Longrightarrow> map_of d key = Some v \<Longrightarrow>
   get_value_from_dict fmt (PDict d) (absent @ key # rest) = Inr (parse_simplified_value fmt v)"
proof (induction absent)
  case Nil
  from Nil.prems(2) have "key \<in> fst ` set d"
    by (metis map_of_eq_None_iff option.distinct(1))
  with Nil.prems(2) show ?case by simp
next
  case (Cons a absent)
  then show ?case by (simp add: map_of_eq_None_iff)
qed

text \<open>
  Claim C3. On a dictionary, \<^verbatim>\<open>get_value_from_dict\<close> skips the candidate keys that are
  absent and returns the parsed value of the first candidate that is present, whatever
  the later candidates hold and also when that value is \<^verbatim>\<open>"Not found"\<close>; when no
  candidate is present it returns \<^verbatim>\<open>(None, None)\<close>. With the current key listed first
  and both keys present, \<open>absent\<close> is empty and the current key's value is returned.
\<close>

theorem get_value_from_dict_first_present:
  "((\<forall>key \<in> set keys. map_of d key = None) \<longrightarrow>
      get_value_from_dict fmt (PDict d) keys = Inr (PNone, PNone))
   \<and> ((\<forall>a \<in> set absent. map_of d a = None) \<and> map_of d key = Some v \<longrightarrow>
      get_value_from_dict fmt (PDict d) (absent @ key # rest)
        = Inr (parse_simplified_value fmt v))
   \<and> ((\<forall>a \<in> set absent. map_of d a = None) \<and> map_of d key = Some (PStr ''Not found'') \<longrightarrow>
      get_value_from_dict fmt (PDict d) (absent @ key # rest)
        = Inr (PNone, PStr ''Not found''))"
  using get_value_from_dict_absent [where keys = keys and d = d and fmt = fmt]
    get_value_from_dict_skip [where absent = absent and d = d and key = key and v = v
      and fmt = fmt and rest = rest]
    get_value_from_dict_skip [where absent = absent and d = d and key = key
      and v = "PStr ''Not found''" and fmt = fmt and rest = rest]
  by (simp add: parse_simplified_value_def)

theorem get_value_from_dict_first_present_witness:
  "get_value_from_dict (\<lambda>v. [])
     (PDict [(''oil_mbbl_per_day'', PStr ''1 MBbl/d''),
             (''oil_production_mbbl_per_day'', PStr ''148.4 MBbl/d'')])
     [''oil_production_mbbl_per_day'', ''oil_mbbl_per_day'']
   = Inr (PFloat (Finite (1484 / 10)), PStr ''148.4 MBbl/d'')
   \<and> get_value_from_dict (\<lambda>v. [])
     (PDict [(''oil_mbbl_per_day'', PStr ''Not found'')])
     [''oil_production_mbbl_per_day'', ''oil_mbbl_per_day'']
   = Inr (PNone, PStr ''Not found'')
   \<and> get_value_from_dict (\<lambda>v. [])
     (PDict [(''gas_bcf'', PStr ''2 Bcf'')])
     [''oil_production_mbbl_per_day'', ''oil_mbbl_per_day'']
   = Inr (PNone, PNone)"
proof -
  let ?d1 = "[(''oil_mbbl_per_day'', PStr ''1 MBbl/d''),
              (''oil_production_mbbl_per_day'', PStr ''148.4 MBbl/d'')]"
  let ?d2 = "[(''oil_mbbl_per_day'', PStr ''Not found'')]"
  let ?d3 = "[(''gas_bcf'', PStr ''2 Bcf'')]"
  have one: "get_value_from_dict (\<lambda>v. []) (PDict ?d1)
               ([] @ ''oil_production_mbbl_per_day'' # [''oil_mbbl_per_day''])
             = Inr (parse_simplified_value (\<lambda>v. []) (PStr ''148.4 MBbl/d''))"
    using get_value_from_dict_first_present
      [where d = ?d1 and absent = "[]" and key = "''oil_production_mbbl_per_day''"
         and v = "PStr ''148.4 MBbl/d''" and fmt = "\<lambda>v. []" and rest = "[''oil_mbbl_per_day'']"]
    by simp
  have two: "get_value_from_dict (\<lambda>v. []) (PDict ?d2)
               ([''oil_production_mbbl_per_day''] @ ''oil_mbbl_per_day'' # [])
             = Inr (PNone, PStr ''Not found'')"
    using get_value_from_dict_first_present
      [where d = ?d2 and absent = "[''oil_production_mbbl_per_day'']"
         and key = "''oil_mbbl_per_day''" and fmt = "\<lambda>v. []" and rest = "[]"]
    by simp
  have three: "get_value_from_dict (\<lambda>v. []) (PDict ?d3)
               [''oil_production_mbbl_per_day'', ''oil_mbbl_per_day'']
             = Inr (PNone, PNone)"
    using get_value_from_dict_first_present
      [where d = ?d3 and keys = "[''oil_production_mbbl_per_day'', ''oil_mbbl_per_day'']"
         and fmt = "\<lambda>v. []"]
    by simp
  from one two three show ?thesis
    by (simp add: scenario_value_with_unit)
qed

section \<open>Properties of the filing locator\<close>

lemma hd_insort_key:
  "hd (insort_key f x ys) = (if ys = [] \<or> f x \<le> f (hd ys) then x else hd ys)"
  by (cases ys) simp_all

lemma hd_sort_key_first_least:
  fixes f :: "'a \<Rightarrow> int"
  shows "xs \<noteq> [] \<Longrightarrow>
    \<exists>i < length xs. hd (sort_key f xs) = xs ! i
       \<and> (\<forall>j < length xs. f (xs ! i) \<le> f (xs ! j))
       \<and> (\<forall>j < i. f (xs ! i) < f (xs ! j))"
proof (induction xs)
  case Nil
  then show ?case by simp
next
  case (Cons x xs)
  show ?case
  proof (cases "xs = []")
    case True
    then show ?thesis by simp
  next
    case False
    with Cons.IH obtain i where i: "i < length xs" "hd (sort_key f xs) = xs ! i"
      "\<forall>j < length xs. f (xs ! i) \<le> f (xs ! j)" "\<forall>j < i. f (xs ! i) < f (xs ! j)"
      by blast
    from False have ne: "sort_key f xs \<noteq> []"
      by (metis length_sort length_0_conv)
    show ?thesis
    proof (cases "f x \<le> f (xs ! i)")
      case True
      have "hd (sort_key f (x # xs)) = (x # xs) ! 0"
        using True i(2) ne by (simp add: hd_insort_key)
      moreover have "\<forall>j < length (x # xs). f ((x # xs) ! 0) \<le> f ((x # xs) ! j)"
      proof (intro allI impI)
        fix j assume "j < length (x # xs)"
        then show "f ((x # xs) ! 0) \<le> f ((x # xs) ! j)"
          using True i(3) by (cases j) (auto intro: order_trans)
      qed
      ultimately show ?thesis by (intro exI [of _ 0]) simp
    next
      case False
      have "hd (sort_key f (x # xs)) = (x # xs) ! Suc i"
        using False i(2) ne by (simp add: hd_insort_key)
      moreover have "\<forall>j < length (x # xs). f ((x # xs) ! Suc i) \<le> f ((x # xs) ! j)"
      proof (intro allI impI)
        fix j assume "j < length (x # xs)"
        then show "f ((x # xs) ! Suc i) \<le> f ((x # xs) ! j)"
          using False i(3) by (cases j) auto
      qed
      moreover have "\<forall>j < Suc i. f ((x # xs) ! Suc i) < f ((x # xs) ! j)"
      proof (intro allI impI)
        fix j assume "j < Suc i"
        then show "f ((x # xs) ! Suc i) < f ((x # xs) ! j)"
          using False i(4) by (cases j) auto
      qed
      ultimately show ?thesis using i(1) by (intro exI [of _ "Suc i"]) simp
    qed
  qed
qed

lemma collect_candidates_href:
  "map href (collect_candidates tk u ft rows)
     = map (\<lambda>cols. the (cols ! 2))
         (filter (\<lambda>cols. row_candidate tk u ft cols \<noteq> None) rows)"
  by (induction rows) (auto simp: row_candidate_def split: option.splits if_splits)

lemma collect_candidates_fields:
  "c \<in> set (collect_candidates tk u ft rows) \<Longrightarrow>
   is_primary (href c) \<and> \<not> is_excluded (href c)
   \<and> url c = full_url u (href c) \<and> priority c = doc_priority tk ft (href c)"
  by (induction rows) (auto simp: row_candidate_def split: option.splits if_splits)


lemma doc_priority_levels:
  "doc_priority tk ft h \<le> 3
   \<and> (doc_priority tk ft h = 3 \<longleftrightarrow>
        str_contains (py_lower h) (remove_char (CHR ''-'') (py_lower ft)))
   \<and> (doc_priority tk ft h = 2 \<longleftrightarrow>
        \<not> str_contains (py_lower h) (remove_char (CHR ''-'') (py_lower ft))
        \<and> str_contains (py_lower h) (py_lower tk))
   \<and> (doc_priority tk ft h = 1 \<longleftrightarrow>
        \<not> str_contains (py_lower h) (remove_char (CHR ''-'') (py_lower ft))
        \<and> \<not> str_contains (py_lower h) (py_lower tk)
        \<and> str_contains (py_lower h) ''htm'' \<and> \<not> str_contains (py_lower h) ''xml'')
   \<and> (doc_priority tk ft h = 0 \<longleftrightarrow>
        \<not> str_contains (py_lower h) (remove_char (CHR ''-'') (py_lower ft))
        \<and> \<not> str_contains (py_lower h) (py_lower tk)
        \<and> (str_contains (py_lower h) ''htm'' \<longrightarrow> str_contains (py_lower h) ''xml''))"
  by (simp add: doc_priority_def)

lemma collect_candidates_rows:
  "map href (collect_candidates tk u ft rows)
     = concat (map (\<lambda>cols. if 3 \<le> length cols
                            then (case cols ! 2 of
                                    None \<Rightarrow> []
                                  | Some h \<Rightarrow> if is_primary h \<and> \<not> is_excluded h then [h] else [])
                            else []) rows)"
  by (induction rows) (simp_all add: row_candidate_def split: option.splits)

lemma scenario_filter:
  "is_excluded ''ex10.htm''"
  "is_primary ''company-10q-2025.htm''"
  "\<not> is_excluded ''company-10q-2025.htm''"
  "\<not> is_primary ''filing_htm.xml''"
  by code_simp+

lemma scenario_kind_token:
  "str_contains (py_lower ''company-10q-2025.htm'') (remove_char (CHR ''-'') (py_lower ''10-Q''))"
  by code_simp

lemma scenario_primary_document:
  "get_filing_document_url tk u ''10-Q''
     (Fetched (Some (header #
        [[a1, b1, Some ''ex10.htm''], [a2, b2, Some ''company-10q-2025.htm''],
         [a3, b3, Some ''filing_htm.xml'']])))
   = Some (full_url u ''company-10q-2025.htm'')"
  using scenario_filter scenario_kind_token
  by (simp add: get_filing_document_url_def candidate_docs_def row_candidate_def
      doc_priority_def sort_by_priority_desc_def)

text \<open>
  Claim C6, as stated: a surviving link that has neither the kind token nor the ticker
  scores 1 as a generic \<^verbatim>\<open>.htm\<close> match, so two such links tie and the first seen is
  returned. The code gives the score 1 only when the link does not contain \<^verbatim>\<open>xml\<close>:
  a surviving \<^verbatim>\<open>.htm\<close> link that contains \<^verbatim>\<open>xml\<close> scores 0 and loses to a later
  generic link.
\<close>

theorem get_filing_document_url_xml_link:
  "map href (candidate_docs ''DVN'' ''https://www.sec.gov/Archives/d/0001-index.htm'' ''10-Q''
      [[None, None, None], [None, None, Some ''xml-notes.htm''],
       [None, None, Some ''main.htm'']])
     = [''xml-notes.htm'', ''main.htm'']
   \<and> map priority (candidate_docs ''DVN'' ''https://www.sec.gov/Archives/d/0001-index.htm''
      ''10-Q''
      [[None, None, None], [None, None, Some ''xml-notes.htm''],
       [None, None, Some ''main.htm'']])
     = [0, 1]
   \<and> get_filing_document_url ''DVN'' ''https://www.sec.gov/Archives/d/0001-index.htm''
        ''10-Q''
        (Fetched (Some [[None, None, None], [None, None, Some ''xml-notes.htm''],
                        [None, None, Some ''main.htm'']]))
     = Some ''https://www.sec.gov/Archives/d/main.htm''"
  by code_simp

text \<open>
  Claim C6, amended. The candidates are the links of the third cells of the rows after the
  header that match a primary pattern and no exclusion pattern, in row order. A candidate
  scores 3 when the filing kind (lower-cased, hyphens removed) occurs in the link, else 2
  when the ticker occurs in it, else 1 when the link contains \<^verbatim>\<open>htm\<close> and does not
  contain \<^verbatim>\<open>xml\<close>, else 0. The function returns \<^verbatim>\<open>None\<close> when the request fails, the
  table is missing or no candidate is left, and otherwise the URL of the candidate of
  greatest score, the first seen among equals. For the page with the links
  \<^verbatim>\<open>ex10.htm\<close>, \<^verbatim>\<open>company-10q-2025.htm\<close> and \<^verbatim>\<open>filing_htm.xml\<close> and the kind
  \<^verbatim>\<open>10-Q\<close> the result is the URL of \<^verbatim>\<open>company-10q-2025.htm\<close>.
\<close>

theorem get_filing_document_url_best:
  "get_filing_document_url tk u ft Failed = None
   \<and> get_filing_document_url tk u ft (Fetched None) = None
   \<and> (candidate_docs tk u ft rows = [] \<longrightarrow>
        get_filing_document_url tk u ft (Fetched (Some rows)) = None)
   \<and> (candidate_docs tk u ft rows \<noteq> [] \<longrightarrow>
        (\<exists>i < length (candidate_docs tk u ft rows).
           get_filing_document_url tk u ft (Fetched (Some rows))
             = Some (url (candidate_docs tk u ft rows ! i))
           \<and> (\<forall>j < length (candidate_docs tk u ft rows).
                 priority (candidate_docs tk u ft rows ! j)
                   \<le> priority (candidate_docs tk u ft rows ! i))
           \<and> (\<forall>j < i. priority (candidate_docs tk u ft rows ! j)
                   < priority (candidate_docs tk u ft rows ! i))))
   \<and> (\<forall>c \<in> set (candidate_docs tk u ft rows).
         is_primary (href c) \<and> \<not> is_excluded (href c)
         \<and> url c = full_url u (href c)
         \<and> priority c = doc_priority tk ft (href c))
   \<and> map href (candidate_docs tk u ft rows)
        = concat (map (\<lambda>cols. if 3 \<le> length cols
                               then (case cols ! 2 of
                                       None \<Rightarrow> []
                                     | Some l \<Rightarrow>
                                         if is_primary l \<and> \<not> is_excluded l then [l] else [])
                               else []) (drop 1 rows))
   \<and> doc_priority tk ft h \<le> 3
   \<and> (doc_priority tk ft h = 3 \<longleftrightarrow>
        str_contains (py_lower h) (remove_char (CHR ''-'') (py_lower ft)))
   \<and> (doc_priority tk ft h = 2 \<longleftrightarrow>
        \<not> str_contains (py_lower h) (remove_char (CHR ''-'') (py_lower ft))
        \<and> str_contains (py_lower h) (py_lower tk))
   \<and> (doc_priority tk ft h = 1 \<longleftrightarrow>
        \<not> str_contains (py_lower h) (remove_char (CHR ''-'') (py_lower ft))
        \<and> \<not> str_contains (py_lower h) (py_lower tk)
        \<and> str_contains (py_lower h) ''htm'' \<and> \<not> str_contains (py_lower h) ''xml'')
   \<and> (doc_priority tk ft h = 0 \<longleftrightarrow>
        \<not> str_contains (py_lower h) (remove_char (CHR ''-'') (py_lower ft))
        \<and> \<not> str_contains (py_lower h) (py_lower tk)
        \<and> (str_contains (py_lower h) ''htm'' \<longrightarrow> str_contains (py_lower h) ''xml''))
   \<and> get_filing_document_url tk u ''10-Q''
        (Fetched (Some (header #
           [[a1, b1, Some ''ex10.htm''], [a2, b2, Some ''company-10q-2025.htm''],
            [a3, b3, Some ''filing_htm.xml'']])))
      = Some (full_url u ''company-10q-2025.htm'')"
proof -
  let ?cs = "candidate_docs tk u ft rows"
  have fail: "get_filing_document_url tk u ft Failed = None"
    "get_filing_document_url tk u ft (Fetched None) = None"
    by (simp_all add: get_filing_document_url_def)
  have none: "?cs = [] \<longrightarrow> get_filing_document_url tk u ft (Fetched (Some rows)) = None"
    by (simp add: get_filing_document_url_def)
  have best: "?cs \<noteq> [] \<longrightarrow>
        (\<exists>i < length ?cs.
           get_filing_document_url tk u ft (Fetched (Some rows)) = Some (url (?cs ! i))
           \<and> (\<forall>j < length ?cs. priority (?cs ! j) \<le> priority (?cs ! i))
           \<and> (\<forall>j < i. priority (?cs ! j) < priority (?cs ! i)))"
  proof
    assume ne: "?cs \<noteq> []"
    from hd_sort_key_first_least [OF ne, of "\<lambda>c. - int (priority c)"]
    obtain i where i: "i < length ?cs"
      "hd (sort_key (\<lambda>c. - int (priority c)) ?cs) = ?cs ! i"
      "\<forall>j < length ?cs. - int (priority (?cs ! i)) \<le> - int (priority (?cs ! j))"
      "\<forall>j < i. - int (priority (?cs ! i)) < - int (priority (?cs ! j))"
      by blast
    have "get_filing_document_url tk u ft (Fetched (Some rows)) = Some (url (?cs ! i))"
      using ne i(2) by (simp add: get_filing_document_url_def sort_by_priority_desc_def)
    moreover have "\<forall>j < length ?cs. priority (?cs ! j) \<le> priority (?cs ! i)"
      using i(3) by auto
    moreover have "\<forall>j < i. priority (?cs ! j) < priority (?cs ! i)"
      using i(4) by auto
    ultimately show "\<exists>i < length ?cs.
           get_filing_document_url tk u ft (Fetched (Some rows)) = Some (url (?cs ! i))
           \<and> (\<forall>j < length ?cs. priority (?cs ! j) \<le> priority (?cs ! i))
           \<and> (\<forall>j < i. priority (?cs ! j) < priority (?cs ! i))"
      using i(1) by blast
  qed
  have fields: "\<forall>c \<in> set ?cs.
         is_primary (href c) \<and> \<not> is_excluded (href c)
         \<and> url c = full_url u (href c)
         \<and> priority c = doc_priority tk ft (href c)"
    using collect_candidates_fields unfolding candidate_docs_def by blast
  have listed: "map href ?cs
        = concat (map (\<lambda>cols. if 3 \<le> length cols
                               then (case cols ! 2 of
                                       None \<Rightarrow> []
                                     | Some l \<Rightarrow>
                                         if is_primary l \<and> \<not> is_excluded l then [l] else [])
                               else []) (drop 1 rows))"
    unfolding candidate_docs_def by (rule collect_candidates_rows)
  note lv = doc_priority_levels [of tk ft h]
  note l1 = lv [THEN conjunct1]
    and l2 = lv [THEN conjunct2, THEN conjunct1]
    and l3 = lv [THEN conjunct2, THEN conjunct2, THEN conjunct1]
    and l4 = lv [THEN conjunct2, THEN conjunct2, THEN conjunct2, THEN conjunct1]
    and l5 = lv [THEN conjunct2, THEN conjunct2, THEN conjunct2, THEN conjunct2]
  note sc = scenario_primary_document [of tk u header a1 b1 a2 b2 a3 b3]
  show ?thesis
    by (intro conjI) (rule fail none best fields listed l1 l2 l3 l4 l5 sc)+
qed

theorem get_filing_document_url_best_witness:
  "candidate_docs ''DVN'' ''https://www.sec.gov/Archives/d/0001-index.htm'' ''10-Q''
      [[None, None, None],
       [None, None, Some ''R2.htm''],
       [None, None, Some ''dvn_10q.htm''],
       [None, None, Some ''a10q.htm''],
       [None, None, Some ''dvn_htm.xml'']] \<noteq> []
   \<and> get_filing_document_url ''DVN'' ''https://www.sec.gov/Archives/d/0001-index.htm''
        ''10-Q''
        (Fetched (Some
          [[None, None, None],
           [None, None, Some ''R2.htm''],
           [None, None, Some ''dvn_10q.htm''],
           [None, None, Some ''a10q.htm''],
           [None, None, Some ''dvn_htm.xml'']]))
      = Some ''https://www.sec.gov/Archives/d/dvn_10q.htm''"
proof -
  let ?u = "''https://www.sec.gov/Archives/d/0001-index.htm''"
  let ?rows = "[[None, None, None],
       [None, None, Some ''R2.htm''],
       [None, None, Some ''dvn_10q.htm''],
       [None, None, Some ''a10q.htm''],
       [None, None, Some ''dvn_htm.xml'']]"
  let ?cs = "candidate_docs ''DVN'' ?u ''10-Q'' ?rows"
  let ?r = "get_filing_document_url ''DVN'' ?u ''10-Q'' (Fetched (Some ?rows))"
  have cs: "?cs =
     [\<lparr>url = ''https://www.sec.gov/Archives/d/R2.htm'', href = ''R2.htm'', priority = 1\<rparr>,
      \<lparr>url = ''https://www.sec.gov/Archives/d/dvn_10q.htm'', href = ''dvn_10q.htm'',
         priority = 3\<rparr>,
      \<lparr>url = ''https://www.sec.gov/Archives/d/a10q.htm'', href = ''a10q.htm'',
         priority = 3\<rparr>]"
    by code_simp
  then have ne: "?cs \<noteq> []" by simp
  note best = get_filing_document_url_best
    [where tk = "''DVN''" and u = ?u and ft = "''10-Q''" and rows = ?rows,
     THEN conjunct2, THEN conjunct2, THEN conjunct2, THEN conjunct1, rule_format, OF ne]
  then obtain i where i: "i < length ?cs" "?r = Some (url (?cs ! i))"
    "\<forall>j < length ?cs. priority (?cs ! j) \<le> priority (?cs ! i)"
    "\<forall>j < i. priority (?cs ! j) < priority (?cs ! i)"
    by blast
  have len: "length ?cs = 3" by (simp only: cs) simp
  have p0: "priority (?cs ! 0) = 1" by (simp only: cs) simp
  have p1: "priority (?cs ! 1) = 3" by (simp only: cs) simp
  have p2: "priority (?cs ! 2) = 3" by (simp only: cs) simp
  have u1: "url (?cs ! 1) = ''https://www.sec.gov/Archives/d/dvn_10q.htm''"
    by (simp only: cs) simp
  from i(1) len have "i = 0 \<or> i = 1 \<or> i = 2" by arith
  moreover have "i \<noteq> 0"
  proof
    assume "i = 0"
    with i(3) len have "priority (?cs ! 1) \<le> priority (?cs ! 0)" by simp
    with p0 p1 show False by simp
  qed
  moreover have "i \<noteq> 2"
  proof
    assume "i = 2"
    with i(4) have "priority (?cs ! 1) < priority (?cs ! 2)" by simp
    with p1 p2 show False by simp
  qed
  ultimately have "i = 1" by blast
  with i(2) u1 have "?r = Some ''https://www.sec.gov/Archives/d/dvn_10q.htm''" by simp
  with ne show ?thesis by (rule_tac conjI)
qed

section \<open>Properties of the extraction engine\<close>

lemma startswith_append: "startswith s p \<Longrightarrow> \<exists>post. s = p @ post"
  by (induction s p rule: startswith.induct) auto

lemma startswith_after_spaces:
  assumes "startswith (dropWhile P s) p"
  shows "\<exists>ws post. s = ws @ p @ post \<and> (\<forall>c \<in> set ws. P c)"
proof -
  from assms obtain post where post: "dropWhile P s = p @ post"
    using startswith_append by blast
  have "takeWhile P s @ dropWhile P s = s" by simp
  with post have eq: "s = takeWhile P s @ p @ post" by metis
  have sp: "\<forall>c \<in> set (takeWhile P s). P c"
    by (auto dest: set_takeWhileD)
  from eq sp show ?thesis by blast
qed

lemma closes_here_split:
  "closes_here s \<Longrightarrow> \<exists>ws post. s = ws @ ''```'' @ post \<and> (\<forall>c \<in> set ws. is_space c)"
  unfolding closes_here_def by (rule startswith_after_spaces)

lemma lazy_group_sound:
  "lazy_group s = Some g \<Longrightarrow>
   \<exists>ws post. s = g @ ws @ ''```'' @ post \<and> (\<forall>c \<in> set ws. is_space c)"
proof (induction s arbitrary: g)
  case Nil
  show ?case
  proof (cases "closes_here []")
    case True
    with Nil have "g = []" by simp
    with closes_here_split [OF True] show ?thesis by simp
  next
    case False
    with Nil show ?thesis by simp
  qed
next
  case (Cons c cs)
  show ?case
  proof (cases "closes_here (c # cs)")
    case True
    with Cons.prems have "g = []" by simp
    with closes_here_split [OF True] show ?thesis by simp
  next
    case False
    with Cons.prems obtain g' where g': "lazy_group cs = Some g'" "g = c # g'"
      by (auto split: option.splits)
    from Cons.IH [OF g'(1)] obtain ws post where
      wp: "cs = g' @ ws @ ''```'' @ post" "\<forall>c \<in> set ws. is_space c"
      by blast
    from wp(1) have "c # cs = (c # g') @ ws @ ''```'' @ post"
      by simp
    with wp(2) show ?thesis unfolding g'(2) by blast
  qed
qed

lemma find_json_fence_sound:
  "find_json_fence s = Some g \<Longrightarrow>
   \<exists>pre ws1 ws2 post.
      s = pre @ ''```json'' @ ws1 @ g @ ws2 @ ''```'' @ post
      \<and> (\<forall>c \<in> set ws1. is_space c) \<and> (\<forall>c \<in> set ws2. is_space c)"
proof (induction s)
  case Nil
  then show ?case by simp
next
  case (Cons c cs)
  let ?s = "c # cs"
  let ?found = "startswith ?s ''```json''
                 \<and> lazy_group (dropWhile is_space (drop 7 ?s)) \<noteq> None"
  show ?case
  proof (cases ?found)
    case True
    then have found: "lazy_group (dropWhile is_space (drop 7 ?s)) = Some g"
      using Cons.prems by (auto split: option.splits)
    from True obtain rest where rest: "?s = ''```json'' @ rest"
      using startswith_append by blast
    have d7: "drop 7 (''```json'' @ rest) = rest" by simp
    from lazy_group_sound [OF found] obtain ws2 post where
      w2: "dropWhile is_space rest = g @ ws2 @ ''```'' @ post" "\<forall>c \<in> set ws2. is_space c"
      unfolding rest d7 by blast
    have "takeWhile is_space rest @ dropWhile is_space rest = rest" by simp
    with w2(1) have "rest = takeWhile is_space rest @ g @ ws2 @ ''```'' @ post" by metis
    with rest have "?s = [] @ ''```json'' @ takeWhile is_space rest @ g @ ws2 @ ''```'' @ post"
      by (metis append_Nil)
    moreover have "\<forall>c \<in> set (takeWhile is_space rest). is_space c"
      by (auto dest: set_takeWhileD)
    ultimately show ?thesis using w2(2) by blast
  next
    case False
    with Cons.prems have "find_json_fence cs = Some g"
      by (auto split: option.splits if_splits)
    from Cons.IH [OF this] obtain pre ws1 ws2 post where
      *: "cs = pre @ ''```json'' @ ws1 @ g @ ws2 @ ''```'' @ post"
      "\<forall>c \<in> set ws1. is_space c" "\<forall>c \<in> set ws2. is_space c"
      by blast
    from *(1) have "?s = (c # pre) @ ''```json'' @ ws1 @ g @ ws2 @ ''```'' @ post" by simp
    with *(2,3) show ?thesis by blast
  qed
qed


lemma dropWhile_keeps_rest:
  "\<not> P x \<Longrightarrow> \<exists>a'. dropWhile P (a @ x # r) = a' @ x # r"
proof (induction a)
  case Nil
  then show ?case by simp
next
  case (Cons y a)
  show ?case
  proof (cases "P y")
    case True
    with Cons show ?thesis by simp
  next
    case False
    then have "dropWhile P ((y # a) @ x # r) = (y # a) @ x # r" by simp
    then show ?thesis by blast
  qed
qed

lemma backtick_not_space: "\<not> is_space (CHR 0x60)"
  by (simp add: is_space_def)

lemma lazy_group_complete: "lazy_group (a @ ''```'' @ b) \<noteq> None"
proof (induction a)
  case Nil
  have "closes_here (''```'' @ b)"
    by (simp add: closes_here_def is_space_def)
  then show ?case by (cases "''```'' @ b") simp_all
next
  case (Cons x a)
  then show ?case by (auto split: option.splits)
qed

lemma find_json_fence_complete:
  "find_json_fence (pre @ ''```json'' @ mid @ ''```'' @ post) \<noteq> None"
proof (induction pre)
  case Nil
  have "\<exists>a'. dropWhile is_space (mid @ CHR 0x60 # ''``'' @ post) = a' @ CHR 0x60 # ''``'' @ post"
    using backtick_not_space by (rule dropWhile_keeps_rest)
  then obtain a' where "dropWhile is_space (mid @ ''```'' @ post) = a' @ ''```'' @ post"
    by auto
  then have "lazy_group (dropWhile is_space (mid @ ''```'' @ post)) \<noteq> None"
    using lazy_group_complete [of a' post] by simp
  then show ?case by (auto split: option.splits)
next
  case (Cons x pre)
  then show ?case by (auto split: option.splits)
qed


lemma lazy_group_exact:
  "closes_here tail \<Longrightarrow>
   (\<forall>g1 g2. g = g1 @ g2 \<and> g2 \<noteq> [] \<longrightarrow> \<not> closes_here (g2 @ tail)) \<Longrightarrow>
   lazy_group (g @ tail) = Some g"
proof (induction g)
  case Nil
  then show ?case by (cases tail) simp_all
next
  case (Cons c g)
  from Cons.prems(2) have open_here: "\<not> closes_here ((c # g) @ tail)" by blast
  have "\<forall>g1 g2. g = g1 @ g2 \<and> g2 \<noteq> [] \<longrightarrow> \<not> closes_here (g2 @ tail)"
  proof (intro allI impI)
    fix g1 g2 assume "g = g1 @ g2 \<and> g2 \<noteq> []"
    then have "c # g = (c # g1) @ g2 \<and> g2 \<noteq> []" by simp
    with Cons.prems(2) show "\<not> closes_here (g2 @ tail)" by blast
  qed
  with Cons.IH Cons.prems(1) have "lazy_group (g @ tail) = Some g" by blast
  with open_here show ?case by simp
qed

lemma find_json_fence_skip:
  "(\<forall>a b. pre = a @ b \<and> b \<noteq> [] \<longrightarrow> \<not> startswith (b @ s) ''```json'') \<Longrightarrow>
   find_json_fence (pre @ s) = find_json_fence s"
proof (induction pre)
  case Nil
  then show ?case by simp
next
  case (Cons x pre)
  from Cons.prems have ns: "\<not> startswith ((x # pre) @ s) ''```json''"
    by blast
  have "\<forall>a b. pre = a @ b \<and> b \<noteq> [] \<longrightarrow> \<not> startswith (b @ s) ''```json''"
  proof (intro allI impI)
    fix a b assume "pre = a @ b \<and> b \<noteq> []"
    then have "x # pre = (x # a) @ b \<and> b \<noteq> []" by simp
    with Cons.prems show "\<not> startswith (b @ s) ''```json''" by blast
  qed
  with Cons.IH have "find_json_fence (pre @ s) = find_json_fence s" by blast
  with ns show ?case by auto
qed

lemma find_json_fence_exact:
  assumes "\<forall>a b. pre = a @ b \<and> b \<noteq> [] \<longrightarrow> \<not> startswith (b @ ''```json'' @ rest) ''```json''"
    and "lazy_group (dropWhile is_space rest) = Some g"
  shows "find_json_fence (pre @ ''```json'' @ rest) = Some g"
proof -
  from assms(1) have "find_json_fence (pre @ ''```json'' @ rest)
      = find_json_fence (''```json'' @ rest)"
    by (rule find_json_fence_skip)
  also from assms(2) have "find_json_fence (''```json'' @ rest) = Some g" by simp
  finally show ?thesis .
qed

lemma find_json_fence_leftmost_shortest:
  assumes "\<forall>a b. pre = a @ b \<and> b \<noteq> [] \<longrightarrow> \<not> startswith (b @ ''```json'' @ rest) ''```json''"
    and "dropWhile is_space rest = g @ tail" and "closes_here tail"
    and "\<forall>g1 g2. g = g1 @ g2 \<and> g2 \<noteq> [] \<longrightarrow> \<not> closes_here (g2 @ tail)"
  shows "find_json_fence (pre @ ''```json'' @ rest) = Some g"
proof -
  from assms(3,4) have "lazy_group (g @ tail) = Some g" by (rule lazy_group_exact)
  with assms(2) have "lazy_group (dropWhile is_space rest) = Some g" by simp
  with assms(1) show ?thesis by (rule find_json_fence_exact)
qed

text \<open>
  Claim C4, as the specification states it: on a parse failure the data returned is the
  raw response. With a fence in the response the text returned is the fence contents
  only; what the model wrote around the fence is not in the result.
\<close>

theorem extract_metrics_keeps_fence_only:
  "extract_metrics (\<lambda>t. Inl (JSONDecodeError ''Expecting property name''))
     (\<lambda>prompt. Inr ''Here: ```json {oops ``` Done.'') ''10-Q''
   = PDict [(''success'', PBool True), (''data'', PStr ''{oops''),
            (''format'', PStr ''text'')]
   \<and> PStr ''{oops'' \<noteq> PStr ''Here: ```json {oops ``` Done.''"
  by (simp add: extract_metrics_def text_to_parse_def closes_here_def is_space_def)

text \<open>
  Claim C4, amended. The text handed to the parser is the contents of a fenced block
  labelled \<^verbatim>\<open>json\<close> when the response has one, and the whole response otherwise: the
  block is the one that opens at the leftmost \<^verbatim>\<open>```json\<close>, and its contents run from
  the first character after the white space that follows the opening fence up to the
  nearest place from which only white space separates from a closing fence. When that text
  parses, the result is success with the parsed value; when the parser raises
  \<^verbatim>\<open>JSONDecodeError\<close>, the result is success with that same text (the fence contents
  when there is a fence, not the whole response) in text format; when the chain raises,
  the result is failure with the message.
\<close>

theorem extract_metrics_outcomes:
  "(rag_chain (create_extraction_prompt ft) = Inl e \<longrightarrow>
      extract_metrics json_loads rag_chain ft
        = PDict [(''success'', PBool False), (''error'', PStr (exception_message e))])
   \<and> (rag_chain (create_extraction_prompt ft) = Inr response
        \<and> json_loads (text_to_parse response) = Inr parsed \<longrightarrow>
      extract_metrics json_loads rag_chain ft
        = PDict [(''success'', PBool True), (''data'', parsed)])
   \<and> (rag_chain (create_extraction_prompt ft) = Inr response
        \<and> json_loads (text_to_parse response) = Inl (JSONDecodeError m) \<longrightarrow>
      extract_metrics json_loads rag_chain ft
        = PDict [(''success'', PBool True), (''data'', PStr (text_to_parse response)),
                 (''format'', PStr ''text'')])
   \<and> (find_json_fence response = None \<longrightarrow> text_to_parse response = response)
   \<and> (find_json_fence response = Some g \<longrightarrow>
        text_to_parse response = g
        \<and> (\<exists>pre ws1 ws2 post.
              response = pre @ ''```json'' @ ws1 @ g @ ws2 @ ''```'' @ post
              \<and> (\<forall>c \<in> set ws1. is_space c) \<and> (\<forall>c \<in> set ws2. is_space c)))
   \<and> find_json_fence (pre' @ ''```json'' @ mid @ ''```'' @ post') \<noteq> None
   \<and> ((\<forall>a b. before = a @ b \<and> b \<noteq> [] \<longrightarrow>
           \<not> startswith (b @ ''```json'' @ rest) ''```json'')
        \<and> dropWhile is_space rest = block @ tail \<and> closes_here tail
        \<and> (\<forall>g1 g2. block = g1 @ g2 \<and> g2 \<noteq> [] \<longrightarrow> \<not> closes_here (g2 @ tail)) \<longrightarrow>
        find_json_fence (before @ ''```json'' @ rest) = Some block
        \<and> text_to_parse (before @ ''```json'' @ rest) = block)"
proof -
  have fail: "rag_chain (create_extraction_prompt ft) = Inl e \<longrightarrow>
      extract_metrics json_loads rag_chain ft
        = PDict [(''success'', PBool False), (''error'', PStr (exception_message e))]"
    by (simp add: extract_metrics_def)
  have ok: "rag_chain (create_extraction_prompt ft) = Inr response
        \<and> json_loads (text_to_parse response) = Inr parsed \<longrightarrow>
      extract_metrics json_loads rag_chain ft
        = PDict [(''success'', PBool True), (''data'', parsed)]"
    by (simp add: extract_metrics_def)
  have soft: "rag_chain (create_extraction_prompt ft) = Inr response
        \<and> json_loads (text_to_parse response) = Inl (JSONDecodeError m) \<longrightarrow>
      extract_metrics json_loads rag_chain ft
        = PDict [(''success'', PBool True), (''data'', PStr (text_to_parse response)),
                 (''format'', PStr ''text'')]"
    by (simp add: extract_metrics_def)
  have raw: "find_json_fence response = None \<longrightarrow> text_to_parse response = response"
    by (simp add: text_to_parse_def)
  have fence: "find_json_fence response = Some g \<longrightarrow>
        text_to_parse response = g
        \<and> (\<exists>pre ws1 ws2 post.
              response = pre @ ''```json'' @ ws1 @ g @ ws2 @ ''```'' @ post
              \<and> (\<forall>c \<in> set ws1. is_space c) \<and> (\<forall>c \<in> set ws2. is_space c))"
    using find_json_fence_sound [of response g] by (simp add: text_to_parse_def)
  note present = find_json_fence_complete [of pre' mid post']
  have exact: "(\<forall>a b. before = a @ b \<and> b \<noteq> [] \<longrightarrow>
           \<not> startswith (b @ ''```json'' @ rest) ''```json'')
        \<and> dropWhile is_space rest = block @ tail \<and> closes_here tail
        \<and> (\<forall>g1 g2. block = g1 @ g2 \<and> g2 \<noteq> [] \<longrightarrow> \<not> closes_here (g2 @ tail)) \<longrightarrow>
        find_json_fence (before @ ''```json'' @ rest) = Some block
        \<and> text_to_parse (before @ ''```json'' @ rest) = block"
  proof
    assume h: "(\<forall>a b. before = a @ b \<and> b \<noteq> [] \<longrightarrow>
           \<not> startswith (b @ ''```json'' @ rest) ''```json'')
        \<and> dropWhile is_space rest = block @ tail \<and> closes_here tail
        \<and> (\<forall>g1 g2. block = g1 @ g2 \<and> g2 \<noteq> [] \<longrightarrow> \<not> closes_here (g2 @ tail))"
    then have "find_json_fence (before @ ''```json'' @ rest) = Some block"
      by (intro find_json_fence_leftmost_shortest [where tail = tail]) blast+
    then show "find_json_fence (before @ ''```json'' @ rest) = Some block
        \<and> text_to_parse (before @ ''```json'' @ rest) = block"
      by (simp add: text_to_parse_def)
  qed
  show ?thesis
    by (intro conjI) (rule fail ok soft raw fence present exact)+
qed

theorem extract_metrics_outcomes_witness:
  "extract_metrics (\<lambda>t. if t = ''{}'' then Inr (PDict []) else Inl (JSONDecodeError ''bad''))
     (\<lambda>prompt. Inr ''```json {} ```'') ''10-K''
   = PDict [(''success'', PBool True), (''data'', PDict [])]
   \<and> extract_metrics (\<lambda>t. Inl (JSONDecodeError ''bad'')) (\<lambda>prompt. Inr ''no json'') ''10-K''
   = PDict [(''success'', PBool True), (''data'', PStr ''no json''),
            (''format'', PStr ''text'')]
   \<and> extract_metrics (\<lambda>t. Inl (JSONDecodeError ''bad''))
        (\<lambda>prompt. Inl (OtherException ''timeout'')) ''10-K''
   = PDict [(''success'', PBool False), (''error'', PStr ''timeout'')]
   \<and> extract_metrics
        (\<lambda>t. if t = ''[1]'' then Inr (PList [PInt 1])
             else if t = ''[2]'' then Inr (PList [PInt 2])
             else Inl (JSONDecodeError ''bad''))
        (\<lambda>prompt. Inr ''a ```json [1] ``` b ```json [2] ``` c'') ''10-K''
   = PDict [(''success'', PBool True), (''data'', PList [PInt 1])]"
proof -
  have t1: "text_to_parse ''```json {} ```'' = ''{}''"
    by (simp add: text_to_parse_def closes_here_def is_space_def)
  have t2: "text_to_parse ''no json'' = ''no json''"
    by (simp add: text_to_parse_def)
  note a = extract_metrics_outcomes
    [where rag_chain = "\<lambda>prompt. Inr ''```json {} ```''" and ft = "''10-K''"
       and response = "''```json {} ```''" and parsed = "PDict []"
       and json_loads = "\<lambda>t. if t = ''{}'' then Inr (PDict []) else Inl (JSONDecodeError ''bad'')",
     THEN conjunct2, THEN conjunct1]
  note b = extract_metrics_outcomes
    [where rag_chain = "\<lambda>prompt. Inr ''no json''" and ft = "''10-K''"
       and response = "''no json''" and m = "''bad''"
       and json_loads = "\<lambda>t. Inl (JSONDecodeError ''bad'')",
     THEN conjunct2, THEN conjunct2, THEN conjunct1]
  note c = extract_metrics_outcomes
    [where rag_chain = "\<lambda>prompt. Inl (OtherException ''timeout'')" and ft = "''10-K''"
       and e = "OtherException ''timeout''"
       and json_loads = "\<lambda>t. Inl (JSONDecodeError ''bad'')",
     THEN conjunct1]
  let ?two = "''a '' @ ''```json'' @ '' [1] ``` b ```json [2] ``` c''"
  let ?loads = "\<lambda>t. if t = ''[1]'' then Inr (PList [PInt 1])
             else if t = ''[2]'' then Inr (PList [PInt 2])
             else Inl (JSONDecodeError ''bad'')"
  have h1: "\<forall>a b. ''a '' = a @ b \<and> b \<noteq> [] \<longrightarrow>
      \<not> startswith (b @ ''```json'' @ '' [1] ``` b ```json [2] ``` c'') ''```json''"
    by (auto simp: append_eq_Cons_conv Cons_eq_append_conv)
  have h2: "dropWhile is_space '' [1] ``` b ```json [2] ``` c''
      = ''[1]'' @ '' ``` b ```json [2] ``` c''"
    by (simp add: is_space_def)
  have h3: "closes_here '' ``` b ```json [2] ``` c''"
    by (simp add: closes_here_def is_space_def)
  have h4: "\<forall>g1 g2. ''[1]'' = g1 @ g2 \<and> g2 \<noteq> [] \<longrightarrow>
      \<not> closes_here (g2 @ '' ``` b ```json [2] ``` c'')"
    by (auto simp: append_eq_Cons_conv Cons_eq_append_conv closes_here_def is_space_def)
  note first = extract_metrics_outcomes
    [where before = "''a ''" and rest = "'' [1] ``` b ```json [2] ``` c''"
       and block = "''[1]''" and tail = "'' ``` b ```json [2] ``` c''",
     THEN conjunct2, THEN conjunct2, THEN conjunct2, THEN conjunct2, THEN conjunct2,
     THEN conjunct2, rule_format, OF conjI [OF h1 conjI [OF h2 conjI [OF h3 h4]]],
     THEN conjunct2]
  then have t3: "text_to_parse ''a ```json [1] ``` b ```json [2] ``` c'' = ''[1]''"
    by simp
  note d = extract_metrics_outcomes
    [where rag_chain = "\<lambda>prompt. Inr ''a ```json [1] ``` b ```json [2] ``` c''"
       and ft = "''10-K''" and response = "''a ```json [1] ``` b ```json [2] ``` c''"
       and parsed = "PList [PInt 1]" and json_loads = ?loads,
     THEN conjunct2, THEN conjunct1]
  from a b c d t1 t2 t3 show ?thesis by simp
qed


section \<open>Properties of the record normaliser\<close>

lemma parse_json_file_files: "files (fst (parse_json_file jl fmt w p)) = files w"
  by (simp add: parse_json_file_def Let_def split: option.splits sum.splits)

lemma parse_json_file_result:
  "snd (parse_json_file jl fmt w p) =
     (case files w p of
        None \<Rightarrow> None
      | Some text \<Rightarrow>
          (case jl text of
             Inl e \<Rightarrow> None
           | Inr data \<Rightarrow> (case build_record fmt data of Inl e \<Rightarrow> None | Inr r \<Rightarrow> r)))"
  by (simp add: parse_json_file_def Let_def split: option.splits sum.splits)

lemma metric_group_dict: "metric_group (PDict d) key = Inr (map_of d key)"
proof (cases "map_of d key")
  case None
  then have "key \<notin> fst ` set d" by (simp add: map_of_eq_None_iff)
  with None show ?thesis by (simp add: metric_group_def)
next
  case (Some v)
  then have "key \<in> fst ` set d" by (metis map_of_eq_None_iff option.distinct(1))
  moreover from this have "d \<noteq> []" by auto
  ultimately show ?thesis using Some by (simp add: metric_group_def)
qed

lemma get_value_from_dict_total:
  "\<exists>r. get_value_from_dict fmt (PDict g) keys = Inr r"
proof (induction keys)
  case Nil
  show ?case by simp
next
  case (Cons key keys)
  show ?case
  proof (cases "key \<in> fst ` set g")
    case True
    then obtain v where "map_of g key = Some v"
      by (metis map_of_eq_None_iff not_Some_eq)
    with True show ?thesis by simp
  next
    case False
    with Cons show ?thesis by simp
  qed
qed

lemma build_fields_total: "\<exists>kvs. build_fields fmt (PDict g) flds = Inr kvs"
proof (induction flds)
  case Nil
  show ?case by simp
next
  case (Cons f flds)
  obtain name keys where f: "f = (name, keys)" by (cases f)
  obtain r where "get_value_from_dict fmt (PDict g) keys = Inr r"
    using get_value_from_dict_total by blast
  with Cons f show ?case by (cases r) auto
qed

lemma parse_fields_total: "\<exists>kvs. parse_fields fmt (PDict g) flds = Inr kvs"
proof (induction flds)
  case Nil
  show ?case by simp
next
  case (Cons f flds)
  obtain rk jk where f: "f = (rk, jk)" by (cases f)
  with Cons show ?case by (auto split: prod.splits)
qed

lemma capex_field_total: "\<exists>kvs. capex_field fmt (PDict g) rk cur leg = Inr kvs"
  by (simp add: capex_field_def split: prod.splits)

lemma build_fields_keys:
  "build_fields fmt grp flds = Inr kvs \<Longrightarrow>
     map fst kvs = concat (map (\<lambda>(name, keys). [name, name @ ''_str'']) flds)"
proof (induction flds arbitrary: kvs)
  case Nil
  then show ?case by simp
next
  case (Cons f flds)
  obtain name keys where f: "f = (name, keys)" by (cases f)
  from Cons.prems f obtain rest where "build_fields fmt grp flds = Inr rest"
    and "map fst kvs = name # (name @ ''_str'') # map fst rest"
    by (auto split: sum.splits prod.splits)
  with Cons.IH [of rest] f show ?case by simp
qed

lemma parse_fields_keys:
  "parse_fields fmt grp flds = Inr kvs \<Longrightarrow>
     map fst kvs = concat (map (\<lambda>(result_key, json_key). [result_key, result_key @ ''_str''])
                            flds)"
proof (induction flds arbitrary: kvs)
  case Nil
  then show ?case by simp
next
  case (Cons f flds)
  obtain rk jk where f: "f = (rk, jk)" by (cases f)
  from Cons.prems f obtain rest where "parse_fields fmt grp flds = Inr rest"
    and "map fst kvs = rk # (rk @ ''_str'') # map fst rest"
    by (auto split: sum.splits prod.splits)
  with Cons.IH [of rest] f show ?case by simp
qed

lemma capex_field_keys:
  "capex_field fmt grp rk cur leg = Inr kvs \<Longrightarrow> map fst kvs = [rk, rk @ ''_str'']"
  by (auto simp: capex_field_def split: sum.splits prod.splits)


lemma extract_production_data_dict:
  "extract_production_data fmt (PDict d) =
     (case map_of d ''production'' of
        None \<Rightarrow> Inr [] | Some prd \<Rightarrow> build_fields fmt prd production_fields)"
  by (simp add: extract_production_data_def metric_group_dict split: option.splits)

lemma extract_activity_data_dict:
  "extract_activity_data fmt (PDict d) =
     (case map_of d ''activity'' of
        None \<Rightarrow> Inr []
      | Some act \<Rightarrow> parse_fields fmt act (map (\<lambda>field. (field, field)) activity_fields))"
  by (simp add: extract_activity_data_def metric_group_dict split: option.splits)

lemma extract_revenue_data_dict:
  "extract_revenue_data fmt (PDict d) =
     (case map_of d ''revenue'' of
        None \<Rightarrow> Inr [] | Some rvn \<Rightarrow> build_fields fmt rvn revenue_fields)"
  by (simp add: extract_revenue_data_def metric_group_dict split: option.splits)

lemma extract_pricing_data_dict:
  "extract_pricing_data fmt (PDict d) =
     (case map_of d ''revenue'' of
        None \<Rightarrow> Inr [] | Some rvn \<Rightarrow> build_fields fmt rvn pricing_fields)"
  by (simp add: extract_pricing_data_def metric_group_dict split: option.splits)

lemma extract_cost_data_local:
  "map_of d ''costs'' = map_of d' ''costs'' \<Longrightarrow>
     extract_cost_data fmt (PDict d) = extract_cost_data fmt (PDict d')"
  by (simp add: extract_cost_data_def metric_group_dict)

lemma extract_production_data_keys:
  "extract_production_data fmt fd = Inr kvs \<Longrightarrow>
     kvs = [] \<or> map fst kvs
       = concat (map (\<lambda>(name, keys). [name, name @ ''_str'']) production_fields)"
  by (auto simp: extract_production_data_def dest: build_fields_keys
      split: sum.splits option.splits)

lemma extract_revenue_data_keys:
  "extract_revenue_data fmt fd = Inr kvs \<Longrightarrow>
     kvs = [] \<or> map fst kvs
       = concat (map (\<lambda>(name, keys). [name, name @ ''_str'']) revenue_fields)"
  by (auto simp: extract_revenue_data_def dest: build_fields_keys
      split: sum.splits option.splits)

lemma extract_pricing_data_keys:
  "extract_pricing_data fmt fd = Inr kvs \<Longrightarrow>
     kvs = [] \<or> map fst kvs
       = concat (map (\<lambda>(name, keys). [name, name @ ''_str'']) pricing_fields)"
  by (auto simp: extract_pricing_data_def dest: build_fields_keys
      split: sum.splits option.splits)

lemma extract_activity_data_keys:
  "extract_activity_data fmt fd = Inr kvs \<Longrightarrow>
     kvs = [] \<or> map fst kvs
       = concat (map (\<lambda>field. [field, field @ ''_str'']) activity_fields)"
proof -
  assume a: "extract_activity_data fmt fd = Inr kvs"
  show ?thesis
  proof (cases "kvs = []")
    case True
    then show ?thesis by simp
  next
    case False
    with a obtain act where
      "parse_fields fmt act (map (\<lambda>field. (field, field)) activity_fields) = Inr kvs"
      by (auto simp: extract_activity_data_def split: sum.splits option.splits)
    from parse_fields_keys [OF this] show ?thesis
      by (simp add: comp_def)
  qed
qed

lemma extract_cost_data_keys:
  "extract_cost_data fmt fd = Inr kvs \<Longrightarrow>
     kvs = [] \<or> map fst kvs
       = concat (map (\<lambda>(result_key, json_key). [result_key, result_key @ ''_str''])
                   cost_fields)
         @ [''development_capex_million'', ''development_capex_million_str'',
            ''exploration_capex_million'', ''exploration_capex_million_str'',
            ''total_capex_million'', ''total_capex_million_str'']"
proof -
  assume a: "extract_cost_data fmt fd = Inr kvs"
  show ?thesis
  proof (cases "kvs = []")
    case True
    then show ?thesis by simp
  next
    case False
    with a obtain cst per_boe dev_capex exp_capex tot_capex where
      p: "parse_fields fmt cst cost_fields = Inr per_boe"
      and d: "capex_field fmt cst ''development_capex_million''
                ''development_capex_million_usd'' ''development_capex'' = Inr dev_capex"
      and e: "capex_field fmt cst ''exploration_capex_million''
                ''exploration_capex_million_usd'' ''exploration_capex'' = Inr exp_capex"
      and t: "capex_field fmt cst ''total_capex_million''
                ''total_capex_million_usd'' ''total_capex'' = Inr tot_capex"
      and k: "kvs = per_boe @ dev_capex @ exp_capex @ tot_capex"
      by (auto simp: extract_cost_data_def split: sum.splits option.splits)
    from k parse_fields_keys [OF p] capex_field_keys [OF d] capex_field_keys [OF e]
      capex_field_keys [OF t]
    show ?thesis by simp
  qed
qed

lemma build_record_components:
  assumes "build_record fmt data = Inr (Some r)"
  shows "py_get data ''data'' (PDict []) = Inr (raw_filing_data r)"
    and "extract_production_data fmt (raw_filing_data r) = Inr (production r)"
    and "extract_activity_data fmt (raw_filing_data r) = Inr (activity r)"
    and "extract_revenue_data fmt (raw_filing_data r) = Inr (revenue r)"
    and "extract_pricing_data fmt (raw_filing_data r) = Inr (pricing r)"
    and "extract_cost_data fmt (raw_filing_data r) = Inr (costs r)"
  using assms
  by (auto simp: build_record_def split: sum.splits if_splits)


lemma helper_total:
  assumes "\<forall>v. map_of fd key = Some v \<longrightarrow> is_dict v"
  shows "\<exists>kvs. (case map_of fd key of None \<Rightarrow> Inr [] | Some g \<Rightarrow> build_fields fmt g flds)
            = Inr kvs"
    and "\<exists>kvs. (case map_of fd key of None \<Rightarrow> Inr [] | Some g \<Rightarrow> parse_fields fmt g pflds)
            = Inr kvs"
proof -
  show "\<exists>kvs. (case map_of fd key of None \<Rightarrow> Inr [] | Some g \<Rightarrow> build_fields fmt g flds)
            = Inr kvs"
  proof (cases "map_of fd key")
    case None
    then show ?thesis by simp
  next
    case (Some v)
    with assms obtain g where "v = PDict g" by (cases v) auto
    with Some build_fields_total [of fmt g flds] show ?thesis by simp
  qed
  show "\<exists>kvs. (case map_of fd key of None \<Rightarrow> Inr [] | Some g \<Rightarrow> parse_fields fmt g pflds)
            = Inr kvs"
  proof (cases "map_of fd key")
    case None
    then show ?thesis by simp
  next
    case (Some v)
    with assms obtain g where "v = PDict g" by (cases v) auto
    with Some parse_fields_total [of fmt g pflds] show ?thesis by simp
  qed
qed

lemma extract_cost_data_total:
  assumes "\<forall>v. map_of fd ''costs'' = Some v \<longrightarrow> is_dict v"
  shows "\<exists>kvs. extract_cost_data fmt (PDict fd) = Inr kvs"
proof (cases "map_of fd ''costs''")
  case None
  then show ?thesis by (simp add: extract_cost_data_def metric_group_dict)
next
  case (Some v)
  with assms obtain g where v: "v = PDict g" by (cases v) auto
  obtain a where a: "parse_fields fmt (PDict g) cost_fields = Inr a"
    using parse_fields_total by blast
  obtain b where b: "capex_field fmt (PDict g) ''development_capex_million''
                ''development_capex_million_usd'' ''development_capex'' = Inr b"
    using capex_field_total by blast
  obtain c where c: "capex_field fmt (PDict g) ''exploration_capex_million''
                ''exploration_capex_million_usd'' ''exploration_capex'' = Inr c"
    using capex_field_total by blast
  obtain d where d: "capex_field fmt (PDict g) ''total_capex_million''
                ''total_capex_million_usd'' ''total_capex'' = Inr d"
    using capex_field_total by blast
  from Some v a b c d show ?thesis
    by (simp add: extract_cost_data_def metric_group_dict)
qed

lemma build_record_total:
  assumes fd: "map_of entries ''data'' = Some (PDict fd)" "fd \<noteq> []"
    and groups: "\<forall>key \<in> {''production'', ''activity'', ''revenue'', ''costs''}.
                   \<forall>v. map_of fd key = Some v \<longrightarrow> is_dict v"
  shows "\<exists>r. build_record fmt (PDict entries) = Inr (Some r)"
proof -
  obtain prd where prd: "extract_production_data fmt (PDict fd) = Inr prd"
    using helper_total(1) [of fd "''production''" fmt production_fields] groups
    by (auto simp: extract_production_data_dict)
  obtain act where act: "extract_activity_data fmt (PDict fd) = Inr act"
    using helper_total(2) [of fd "''activity''" fmt
        "map (\<lambda>field. (field, field)) activity_fields"] groups
    by (auto simp: extract_activity_data_dict)
  obtain rvn where rvn: "extract_revenue_data fmt (PDict fd) = Inr rvn"
    using helper_total(1) [of fd "''revenue''" fmt revenue_fields] groups
    by (auto simp: extract_revenue_data_dict)
  obtain pri where pri: "extract_pricing_data fmt (PDict fd) = Inr pri"
    using helper_total(1) [of fd "''revenue''" fmt pricing_fields] groups
    by (auto simp: extract_pricing_data_dict)
  obtain cst where cst: "extract_cost_data fmt (PDict fd) = Inr cst"
    using extract_cost_data_total [of fd fmt] groups by auto
  from fd prd act rvn pri cst show ?thesis
    by (simp add: build_record_def dict_get_def)
qed

text \<open>
  Claim C8. The record normaliser reads the JSON file it is given and nothing else, and
  writes nothing but console lines: its result is a function of the parsed JSON alone, it
  is the same in any two worlds that hold the same text under the path, it leaves the
  files as they were, and running it a second time, in the world the first run left
  behind, returns the same record. The five groups of a record it returns are what the
  five \<^verbatim>\<open>extract_*_data\<close> helpers return on the filing data kept in the record. On a
  document whose filing data is a non-empty dictionary and whose metric groups are
  dictionaries, a record is returned and nothing is printed. Each helper reads one entry
  of the filing data and no other (\<^verbatim>\<open>production\<close>, \<^verbatim>\<open>activity\<close>, \<^verbatim>\<open>revenue\<close> for both
  revenue and pricing, \<^verbatim>\<open>costs\<close>): on two dictionaries that agree on that entry it
  returns the same result. The keys of a result that is not empty, and their order, are
  fixed by the helper and not by the input.
\<close>

theorem parse_json_file_deterministic:
  "(files w p = Some content \<and> jl content = Inr data \<longrightarrow>
      snd (parse_json_file jl fmt w p)
        = (case build_record fmt data of Inl e \<Rightarrow> None | Inr r \<Rightarrow> r))
   \<and> (files w p = files w' p \<longrightarrow>
        snd (parse_json_file jl fmt w p) = snd (parse_json_file jl fmt w' p))
   \<and> files (fst (parse_json_file jl fmt w p)) = files w
   \<and> snd (parse_json_file jl fmt (fst (parse_json_file jl fmt w p)) p)
        = snd (parse_json_file jl fmt w p)
   \<and> (snd (parse_json_file jl fmt w p) = Some r \<longrightarrow>
        extract_production_data fmt (raw_filing_data r) = Inr (production r)
        \<and> extract_activity_data fmt (raw_filing_data r) = Inr (activity r)
        \<and> extract_revenue_data fmt (raw_filing_data r) = Inr (revenue r)
        \<and> extract_pricing_data fmt (raw_filing_data r) = Inr (pricing r)
        \<and> extract_cost_data fmt (raw_filing_data r) = Inr (costs r))
   \<and> (files w p = Some content \<and> jl content = Inr (PDict entries)
        \<and> map_of entries ''data'' = Some (PDict fd) \<and> fd \<noteq> []
        \<and> (\<forall>key \<in> {''production'', ''activity'', ''revenue'', ''costs''}.
              \<forall>v. map_of fd key = Some v \<longrightarrow> is_dict v) \<longrightarrow>
        (\<exists>rec. parse_json_file jl fmt w p = (w, Some rec)))
   \<and> (map_of d ''production'' = map_of d' ''production'' \<longrightarrow>
        extract_production_data fmt (PDict d) = extract_production_data fmt (PDict d'))
   \<and> (map_of d ''activity'' = map_of d' ''activity'' \<longrightarrow>
        extract_activity_data fmt (PDict d) = extract_activity_data fmt (PDict d'))
   \<and> (map_of d ''revenue'' = map_of d' ''revenue'' \<longrightarrow>
        extract_revenue_data fmt (PDict d) = extract_revenue_data fmt (PDict d')
        \<and> extract_pricing_data fmt (PDict d) = extract_pricing_data fmt (PDict d'))
   \<and> (map_of d ''costs'' = map_of d' ''costs'' \<longrightarrow>
        extract_cost_data fmt (PDict d) = extract_cost_data fmt (PDict d'))
   \<and> (extract_production_data fmt filing_data = Inr kvs \<longrightarrow>
        kvs = [] \<or> map fst kvs
          = concat (map (\<lambda>(name, keys). [name, name @ ''_str'']) production_fields))
   \<and> (extract_activity_data fmt filing_data = Inr kvs \<longrightarrow>
        kvs = [] \<or> map fst kvs
          = concat (map (\<lambda>field. [field, field @ ''_str'']) activity_fields))
   \<and> (extract_revenue_data fmt filing_data = Inr kvs \<longrightarrow>
        kvs = [] \<or> map fst kvs
          = concat (map (\<lambda>(name, keys). [name, name @ ''_str'']) revenue_fields))
   \<and> (extract_pricing_data fmt filing_data = Inr kvs \<longrightarrow>
        kvs = [] \<or> map fst kvs
          = concat (map (\<lambda>(name, keys). [name, name @ ''_str'']) pricing_fields))
   \<and> (extract_cost_data fmt filing_data = Inr kvs \<longrightarrow>
        kvs = [] \<or> map fst kvs
          = concat (map (\<lambda>(result_key, json_key). [result_key, result_key @ ''_str''])
                      cost_fields)
            @ [''development_capex_million'', ''development_capex_million_str'',
               ''exploration_capex_million'', ''exploration_capex_million_str'',
               ''total_capex_million'', ''total_capex_million_str''])"
proof -
  have a: "files w p = Some content \<and> jl content = Inr data \<longrightarrow>
      snd (parse_json_file jl fmt w p)
        = (case build_record fmt data of Inl e \<Rightarrow> None | Inr r \<Rightarrow> r)"
    by (simp add: parse_json_file_result)
  have b: "files w p = files w' p \<longrightarrow>
        snd (parse_json_file jl fmt w p) = snd (parse_json_file jl fmt w' p)"
    by (simp add: parse_json_file_result)
  have c: "files (fst (parse_json_file jl fmt w p)) = files w"
    by (rule parse_json_file_files)
  have d: "snd (parse_json_file jl fmt (fst (parse_json_file jl fmt w p)) p)
        = snd (parse_json_file jl fmt w p)"
    by (simp add: parse_json_file_result parse_json_file_files)
  have e: "snd (parse_json_file jl fmt w p) = Some r \<longrightarrow>
        extract_production_data fmt (raw_filing_data r) = Inr (production r)
        \<and> extract_activity_data fmt (raw_filing_data r) = Inr (activity r)
        \<and> extract_revenue_data fmt (raw_filing_data r) = Inr (revenue r)
        \<and> extract_pricing_data fmt (raw_filing_data r) = Inr (pricing r)
        \<and> extract_cost_data fmt (raw_filing_data r) = Inr (costs r)"
  proof
    assume "snd (parse_json_file jl fmt w p) = Some r"
    then obtain doc where "build_record fmt doc = Inr (Some r)"
      by (auto simp: parse_json_file_result split: option.splits sum.splits)
    from build_record_components [OF this]
    show "extract_production_data fmt (raw_filing_data r) = Inr (production r)
        \<and> extract_activity_data fmt (raw_filing_data r) = Inr (activity r)
        \<and> extract_revenue_data fmt (raw_filing_data r) = Inr (revenue r)
        \<and> extract_pricing_data fmt (raw_filing_data r) = Inr (pricing r)
        \<and> extract_cost_data fmt (raw_filing_data r) = Inr (costs r)"
      by simp
  qed
  have f: "files w p = Some content \<and> jl content = Inr (PDict entries)
        \<and> map_of entries ''data'' = Some (PDict fd) \<and> fd \<noteq> []
        \<and> (\<forall>key \<in> {''production'', ''activity'', ''revenue'', ''costs''}.
              \<forall>v. map_of fd key = Some v \<longrightarrow> is_dict v) \<longrightarrow>
        (\<exists>rec. parse_json_file jl fmt w p = (w, Some rec))"
  proof
    assume h: "files w p = Some content \<and> jl content = Inr (PDict entries)
        \<and> map_of entries ''data'' = Some (PDict fd) \<and> fd \<noteq> []
        \<and> (\<forall>key \<in> {''production'', ''activity'', ''revenue'', ''costs''}.
              \<forall>v. map_of fd key = Some v \<longrightarrow> is_dict v)"
    then obtain rec where "build_record fmt (PDict entries) = Inr (Some rec)"
      using build_record_total [of entries fd fmt] by blast
    with h show "\<exists>rec. parse_json_file jl fmt w p = (w, Some rec)"
      by (simp add: parse_json_file_def)
  qed
  have g1: "map_of d ''production'' = map_of d' ''production'' \<longrightarrow>
        extract_production_data fmt (PDict d) = extract_production_data fmt (PDict d')"
    by (simp add: extract_production_data_dict)
  have g2: "map_of d ''activity'' = map_of d' ''activity'' \<longrightarrow>
        extract_activity_data fmt (PDict d) = extract_activity_data fmt (PDict d')"
    by (simp add: extract_activity_data_dict)
  have g3: "map_of d ''revenue'' = map_of d' ''revenue'' \<longrightarrow>
        extract_revenue_data fmt (PDict d) = extract_revenue_data fmt (PDict d')
        \<and> extract_pricing_data fmt (PDict d) = extract_pricing_data fmt (PDict d')"
    by (simp add: extract_revenue_data_dict extract_pricing_data_dict)
  have g4: "map_of d ''costs'' = map_of d' ''costs'' \<longrightarrow>
        extract_cost_data fmt (PDict d) = extract_cost_data fmt (PDict d')"
    using extract_cost_data_local [of d d' fmt] by blast
  have k1: "extract_production_data fmt filing_data = Inr kvs \<longrightarrow>
        kvs = [] \<or> map fst kvs
          = concat (map (\<lambda>(name, keys). [name, name @ ''_str'']) production_fields)"
    using extract_production_data_keys [of fmt filing_data kvs] by blast
  have k2: "extract_activity_data fmt filing_data = Inr kvs \<longrightarrow>
        kvs = [] \<or> map fst kvs
          = concat (map (\<lambda>field. [field, field @ ''_str'']) activity_fields)"
    using extract_activity_data_keys [of fmt filing_data kvs] by blast
  have k3: "extract_revenue_data fmt filing_data = Inr kvs \<longrightarrow>
        kvs = [] \<or> map fst kvs
          = concat (map (\<lambda>(name, keys). [name, name @ ''_str'']) revenue_fields)"
    using extract_revenue_data_keys [of fmt filing_data kvs] by blast
  have k4: "extract_pricing_data fmt filing_data = Inr kvs \<longrightarrow>
        kvs = [] \<or> map fst kvs
          = concat (map (\<lambda>(name, keys). [name, name @ ''_str'']) pricing_fields)"
    using extract_pricing_data_keys [of fmt filing_data kvs] by blast
  have k5: "extract_cost_data fmt filing_data = Inr kvs \<longrightarrow>
        kvs = [] \<or> map fst kvs
          = concat (map (\<lambda>(result_key, json_key). [result_key, result_key @ ''_str''])
                      cost_fields)
            @ [''development_capex_million'', ''development_capex_million_str'',
               ''exploration_capex_million'', ''exploration_capex_million_str'',
               ''total_capex_million'', ''total_capex_million_str'']"
    using extract_cost_data_keys [of fmt filing_data kvs] by blast
  show ?thesis
    by (intro conjI) (rule a b c d e f g1 g2 g3 g4 k1 k2 k3 k4 k5)+
qed

theorem parse_json_file_deterministic_witness:
  "let fd = PDict [(''quarter'', PStr ''Q2''), (''year'', PStr ''2024''),
          (''production'', PDict [(''oil_mbbl_per_day'', PStr ''335 MBbl/d'')]),
          (''activity'', PDict [(''drilling_rigs'', PStr ''16'')]),
          (''revenue'', PDict [(''oil_revenue'', PStr ''2,500''),
                              (''oil_price_realized'', PStr ''79'')]),
          (''costs'', PDict [(''ddna_per_boe'', PStr ''12''),
                            (''total_capex'', PStr ''900'')]),
          (''basins'', PDict [(''Delaware'', PDict [])])];
       doc = PDict [(''companyName'', PStr ''DVN''), (''fileType'', PStr ''10-Q''),
          (''secFilingDate'', PStr ''2024-08-07''), (''data'', fd)];
       jl = (\<lambda>t. Inr doc);
       fmt = (\<lambda>v. []);
       w0 = \<lparr>files = [''DVN_10-Q.json'' \<mapsto> ''{...}''], console = []\<rparr>;
       w1 = \<lparr>files = [''DVN_10-Q.json'' \<mapsto> ''{...}'', ''other.json'' \<mapsto> ''[]''],
                 console = [ErrorParsing ''other.json'']\<rparr>;
       r = \<lparr>info = \<lparr>ticker = PStr ''DVN'', cik = PStr '''', company_name = PStr '''',
                    filing_type = PStr ''10-Q'', filing_date = PStr ''2024-08-07'',
                    time_period = PStr '''', quarter = PStr ''Q2'',
                    year = PStr ''2024''\<rparr>,
           production =
             [(''oil_mbbl_per_day'', PFloat (Finite 335)),
              (''oil_mbbl_per_day_str'', PStr ''335 MBbl/d''),
              (''ngl_mbbl_per_day'', PNone), (''ngl_mbbl_per_day_str'', PNone),
              (''gas_mmcf_per_day'', PNone), (''gas_mmcf_per_day_str'', PNone),
              (''boe_mboe_per_day'', PNone), (''boe_mboe_per_day_str'', PNone),
              (''oil_mmbls_total'', PNone), (''oil_mmbls_total_str'', PNone),
              (''ngl_mmbls_total'', PNone), (''ngl_mmbls_total_str'', PNone),
              (''gas_bcf_total'', PNone), (''gas_bcf_total_str'', PNone),
              (''boe_mmboe_total'', PNone), (''boe_mmboe_total_str'', PNone)],
           activity =
             [(''drilling_rigs'', PFloat (Finite 16)), (''drilling_rigs_str'', PStr ''16''),
              (''gross_wells_drilled'', PNone), (''gross_wells_drilled_str'', PStr ''''),
              (''gross_wells_completed'', PNone), (''gross_wells_completed_str'', PStr ''''),
              (''gross_wells_til'', PNone), (''gross_wells_til_str'', PStr ''''),
              (''net_wells_til'', PNone), (''net_wells_til_str'', PStr ''''),
              (''avg_lateral_length_drilled'', PNone),
              (''avg_lateral_length_drilled_str'', PStr ''''),
              (''avg_lateral_length_completed'', PNone),
              (''avg_lateral_length_completed_str'', PStr ''''),
              (''working_interest_percent'', PNone),
              (''working_interest_percent_str'', PStr '''')],
           revenue =
             [(''oil_revenue_million'', PFloat (Finite 2500)),
              (''oil_revenue_million_str'', PStr ''2,500''),
              (''ngl_revenue_million'', PNone), (''ngl_revenue_million_str'', PNone),
              (''gas_revenue_million'', PNone), (''gas_revenue_million_str'', PNone),
              (''total_revenue_million'', PNone), (''total_revenue_million_str'', PNone),
              (''revenue_per_boe'', PNone), (''revenue_per_boe_str'', PNone)],
           pricing =
             [(''realized_price_oil_per_bbl'', PFloat (Finite 79)),
              (''realized_price_oil_per_bbl_str'', PStr ''79''),
              (''realized_price_ngl_per_bbl'', PNone),
              (''realized_price_ngl_per_bbl_str'', PNone),
              (''realized_price_gas_per_mcf'', PNone),
              (''realized_price_gas_per_mcf_str'', PNone),
              (''realized_price_boe'', PNone), (''realized_price_boe_str'', PNone)],
           costs =
             [(''production_cost_per_boe'', PNone),
              (''production_cost_per_boe_str'', PStr ''''),
              (''lease_operating_expense_per_boe'', PNone),
              (''lease_operating_expense_per_boe_str'', PStr ''''),
              (''transportation_cost_per_boe'', PNone),
              (''transportation_cost_per_boe_str'', PStr ''''),
              (''production_taxes_per_boe'', PNone),
              (''production_taxes_per_boe_str'', PStr ''''),
              (''ddna_per_boe'', PFloat (Finite 12)), (''ddna_per_boe_str'', PStr ''12''),
              (''development_capex_million'', PNone),
              (''development_capex_million_str'', PStr ''''),
              (''exploration_capex_million'', PNone),
              (''exploration_capex_million_str'', PStr ''''),
              (''total_capex_million'', PFloat (Finite 900)),
              (''total_capex_million_str'', PStr ''900'')],
           basins = PDict [(''Delaware'', PDict [])],
           raw_filing_data = fd\<rparr>
   in parse_json_file jl fmt w0 ''DVN_10-Q.json'' = (w0, Some r)
      \<and> snd (parse_json_file jl fmt (fst (parse_json_file jl fmt w0 ''DVN_10-Q.json''))
                ''DVN_10-Q.json'') = Some r
      \<and> snd (parse_json_file jl fmt w1 ''DVN_10-Q.json'') = Some r
      \<and> extract_production_data fmt fd = Inr (production r)
      \<and> extract_activity_data fmt fd = Inr (activity r)
      \<and> extract_revenue_data fmt fd = Inr (revenue r)
      \<and> extract_pricing_data fmt fd = Inr (pricing r)
      \<and> extract_cost_data fmt fd = Inr (costs r)
      \<and> extract_production_data fmt
            (PDict [(''activity'', PStr ''none''),
          (''production'', PDict [(''oil_mbbl_per_day'', PStr ''335 MBbl/d'')])])
          = Inr (production r)"
proof -
  let ?fdl = "[(''quarter'', PStr ''Q2''), (''year'', PStr ''2024''),
          (''production'', PDict [(''oil_mbbl_per_day'', PStr ''335 MBbl/d'')]),
          (''activity'', PDict [(''drilling_rigs'', PStr ''16'')]),
          (''revenue'', PDict [(''oil_revenue'', PStr ''2,500''),
                              (''oil_price_realized'', PStr ''79'')]),
          (''costs'', PDict [(''ddna_per_boe'', PStr ''12''),
                            (''total_capex'', PStr ''900'')]),
          (''basins'', PDict [(''Delaware'', PDict [])])]"
  let ?fd = "PDict ?fdl"
  let ?entries = "[(''companyName'', PStr ''DVN''), (''fileType'', PStr ''10-Q''),
          (''secFilingDate'', PStr ''2024-08-07''), (''data'', ?fd)]"
  let ?doc = "PDict ?entries"
  let ?jl = "\<lambda>t::string. (Inr ?doc :: py_exception + pyval)"
  let ?fmt = "\<lambda>v::pyval. ([]::string)"
  let ?w0 = "\<lparr>files = [''DVN_10-Q.json'' \<mapsto> ''{...}''], console = []\<rparr>"
  let ?w1 = "\<lparr>files = [''DVN_10-Q.json'' \<mapsto> ''{...}'', ''other.json'' \<mapsto> ''[]''],
                 console = [ErrorParsing ''other.json'']\<rparr>"
  let ?small = "[(''activity'', PStr ''none''),
          (''production'', PDict [(''oil_mbbl_per_day'', PStr ''335 MBbl/d'')])]"
  let ?r = "\<lparr>info = \<lparr>ticker = PStr ''DVN'', cik = PStr '''', company_name = PStr '''',
                    filing_type = PStr ''10-Q'', filing_date = PStr ''2024-08-07'',
                    time_period = PStr '''', quarter = PStr ''Q2'',
                    year = PStr ''2024''\<rparr>,
           production =
             [(''oil_mbbl_per_day'', PFloat (Finite 335)),
              (''oil_mbbl_per_day_str'', PStr ''335 MBbl/d''),
              (''ngl_mbbl_per_day'', PNone), (''ngl_mbbl_per_day_str'', PNone),
              (''gas_mmcf_per_day'', PNone), (''gas_mmcf_per_day_str'', PNone),
              (''boe_mboe_per_day'', PNone), (''boe_mboe_per_day_str'', PNone),
              (''oil_mmbls_total'', PNone), (''oil_mmbls_total_str'', PNone),
              (''ngl_mmbls_total'', PNone), (''ngl_mmbls_total_str'', PNone),
              (''gas_bcf_total'', PNone), (''gas_bcf_total_str'', PNone),
              (''boe_mmboe_total'', PNone), (''boe_mmboe_total_str'', PNone)],
           activity =
             [(''drilling_rigs'', PFloat (Finite 16)), (''drilling_rigs_str'', PStr ''16''),
              (''gross_wells_drilled'', PNone), (''gross_wells_drilled_str'', PStr ''''),
              (''gross_wells_completed'', PNone), (''gross_wells_completed_str'', PStr ''''),
              (''gross_wells_til'', PNone), (''gross_wells_til_str'', PStr ''''),
              (''net_wells_til'', PNone), (''net_wells_til_str'', PStr ''''),
              (''avg_lateral_length_drilled'', PNone),
              (''avg_lateral_length_drilled_str'', PStr ''''),
              (''avg_lateral_length_completed'', PNone),
              (''avg_lateral_length_completed_str'', PStr ''''),
              (''working_interest_percent'', PNone),
              (''working_interest_percent_str'', PStr '''')],
           revenue =
             [(''oil_revenue_million'', PFloat (Finite 2500)),
              (''oil_revenue_million_str'', PStr ''2,500''),
              (''ngl_revenue_million'', PNone), (''ngl_revenue_million_str'', PNone),
              (''gas_revenue_million'', PNone), (''gas_revenue_million_str'', PNone),
              (''total_revenue_million'', PNone), (''total_revenue_million_str'', PNone),
              (''revenue_per_boe'', PNone), (''revenue_per_boe_str'', PNone)],
           pricing =
             [(''realized_price_oil_per_bbl'', PFloat (Finite 79)),
              (''realized_price_oil_per_bbl_str'', PStr ''79''),
              (''realized_price_ngl_per_bbl'', PNone),
              (''realized_price_ngl_per_bbl_str'', PNone),
              (''realized_price_gas_per_mcf'', PNone),
              (''realized_price_gas_per_mcf_str'', PNone),
              (''realized_price_boe'', PNone), (''realized_price_boe_str'', PNone)],
           costs =
             [(''production_cost_per_boe'', PNone),
              (''production_cost_per_boe_str'', PStr ''''),
              (''lease_operating_expense_per_boe'', PNone),
              (''lease_operating_expense_per_boe_str'', PStr ''''),
              (''transportation_cost_per_boe'', PNone),
              (''transportation_cost_per_boe_str'', PStr ''''),
              (''production_taxes_per_boe'', PNone),
              (''production_taxes_per_boe_str'', PStr ''''),
              (''ddna_per_boe'', PFloat (Finite 12)), (''ddna_per_boe_str'', PStr ''12''),
              (''development_capex_million'', PNone),
              (''development_capex_million_str'', PStr ''''),
              (''exploration_capex_million'', PNone),
              (''exploration_capex_million_str'', PStr ''''),
              (''total_capex_million'', PFloat (Finite 900)),
              (''total_capex_million_str'', PStr ''900'')],
           basins = PDict [(''Delaware'', PDict [])],
           raw_filing_data = ?fd\<rparr>"
  let ?p = "''DVN_10-Q.json''"
  have prd: "extract_production_data ?fmt ?fd = Inr (production ?r)"
    by (simp add: extract_production_data_dict production_fields_def value_eval)
  have act: "extract_activity_data ?fmt ?fd = Inr (activity ?r)"
    by (simp add: extract_activity_data_dict activity_fields_def dict_get_def value_eval)
  have rvn: "extract_revenue_data ?fmt ?fd = Inr (revenue ?r)"
    by (simp add: extract_revenue_data_dict revenue_fields_def value_eval)
  have pri: "extract_pricing_data ?fmt ?fd = Inr (pricing ?r)"
    by (simp add: extract_pricing_data_dict pricing_fields_def value_eval)
  have cst: "extract_cost_data ?fmt ?fd = Inr (costs ?r)"
    by (simp add: extract_cost_data_def metric_group_dict cost_fields_def capex_field_def
        dict_get_def value_eval)
  have rec: "build_record ?fmt ?doc = Inr (Some ?r)"
    by (simp add: build_record_def dict_get_def prd act rvn pri cst)
  note t = parse_json_file_deterministic
    [where w = ?w0 and p = ?p and content = "''{...}''" and data = ?doc and jl = ?jl
       and fmt = ?fmt and w' = ?w1 and r = ?r and entries = ?entries and fd = ?fdl
       and d = ?fdl and d' = ?small]
  have first: "snd (parse_json_file ?jl ?fmt ?w0 ?p) = Some ?r"
    using t [THEN conjunct1] rec by simp
  obtain x where x: "parse_json_file ?jl ?fmt ?w0 ?p = (?w0, Some x)"
    using t [THEN conjunct2, THEN conjunct2, THEN conjunct2, THEN conjunct2, THEN conjunct2, THEN conjunct1] by auto
  from x first have "x = ?r" by simp
  with x have whole: "parse_json_file ?jl ?fmt ?w0 ?p = (?w0, Some ?r)" by simp
  have second: "snd (parse_json_file ?jl ?fmt (fst (parse_json_file ?jl ?fmt ?w0 ?p)) ?p)
      = Some ?r"
    using t [THEN conjunct2, THEN conjunct2, THEN conjunct2, THEN conjunct1] first by simp
  have other: "snd (parse_json_file ?jl ?fmt ?w1 ?p) = Some ?r"
    using t [THEN conjunct2, THEN conjunct1] first by simp
  have helpers: "extract_production_data ?fmt ?fd = Inr (production ?r)
      \<and> extract_activity_data ?fmt ?fd = Inr (activity ?r)
      \<and> extract_revenue_data ?fmt ?fd = Inr (revenue ?r)
      \<and> extract_pricing_data ?fmt ?fd = Inr (pricing ?r)
      \<and> extract_cost_data ?fmt ?fd = Inr (costs ?r)"
    using t [THEN conjunct2, THEN conjunct2, THEN conjunct2, THEN conjunct2, THEN conjunct1, rule_format, OF first] by simp
  have "extract_production_data ?fmt ?fd = extract_production_data ?fmt (PDict ?small)"
    using t [THEN conjunct2, THEN conjunct2, THEN conjunct2, THEN conjunct2, THEN conjunct2, THEN conjunct2, THEN conjunct1] by simp
  with helpers have local:
    "extract_production_data ?fmt (PDict ?small) = Inr (production ?r)"
    by simp
  show ?thesis
    unfolding Let_def
    by (intro conjI) (rule whole second other local helpers [THEN conjunct1]
      helpers [THEN conjunct2, THEN conjunct1]
      helpers [THEN conjunct2, THEN conjunct2, THEN conjunct1]
      helpers [THEN conjunct2, THEN conjunct2, THEN conjunct2, THEN conjunct1]
      helpers [THEN conjunct2, THEN conjunct2, THEN conjunct2, THEN conjunct2])+
qed

section \<open>Properties of the relational store\<close>

lemma clean_val_not_sentinel: "clean_val v \<noteq> PStr ''Not found''"
  by (simp add: clean_val_def)

lemma clean_val_null_iff: "clean_val v = PNone \<longleftrightarrow> \<not> truthy v \<or> v = PStr ''Not found''"
  by (cases v) (auto simp: clean_val_def)

lemma column_set_columns:
  "column (set_columns cols new old) c =
     (if c \<in> set cols then column new c else column old c)"
proof (cases "c \<in> set cols")
  case True
  then have "map_of (map (\<lambda>c. (c, column new c)) cols) c = Some (column new c)"
    by (induction cols) auto
  with True show ?thesis
    by (simp add: set_columns_def column_def dict_get_def map_add_def)
next
  case False
  then have a: "map_of (map (\<lambda>c. (c, column new c)) cols) c = None"
    by (simp add: map_of_eq_None_iff image_iff)
  from False have b: "map_of (filter (\<lambda>(k, v). k \<notin> set cols) old) c = map_of old c"
    by (induction old) auto
  from False a b show ?thesis
    by (simp add: set_columns_def column_def dict_get_def map_add_def)
qed

lemma set_columns_without_sentinel:
  "row_without_sentinel t new \<Longrightarrow> row_without_sentinel t old \<Longrightarrow>
   row_without_sentinel t (set_columns cols new old)"
  by (simp add: row_without_sentinel_def list_all_iff column_set_columns)

lemma upsert_without_sentinel:
  "row_without_sentinel t new \<Longrightarrow> list_all (row_without_sentinel t) rows \<Longrightarrow>
   list_all (row_without_sentinel t) (upsert k cols new rows)"
  by (induction rows) (simp_all add: set_columns_without_sentinel)

lemma metric_cells_lookup:
  "col \<in> fst ` set spec \<Longrightarrow>
   \<exists>v. map_of (metric_cells grp dflt spec) col = Some (clean_val v)"
  by (induction spec) (auto simp: metric_cells_def)

lemma metric_row_without_sentinel:
  assumes "col \<in> fst ` set spec" and "col \<notin> fst ` set ids"
  shows "column (ids @ metric_cells grp dflt spec) col \<noteq> PStr ''Not found''"
proof -
  from assms(1) obtain v where v: "map_of (metric_cells grp dflt spec) col = Some (clean_val v)"
    using metric_cells_lookup by blast
  from assms(2) have "map_of ids col = None"
    by (simp add: map_of_eq_None_iff)
  with v have "column (ids @ metric_cells grp dflt spec) col = clean_val v"
    by (simp add: column_def dict_get_def map_add_def)
  then show ?thesis by (simp add: clean_val_not_sentinel)
qed


lemma metric_statement_without_sentinel:
  assumes "metric_columns t = map fst spec" and "\<forall>col \<in> fst ` set spec. col \<notin> fst ` set ids"
  shows "statement_without_sentinel (t, k, cols, ids @ metric_cells grp dflt spec)"
proof -
  have "column (ids @ metric_cells grp dflt spec) col \<noteq> PStr ''Not found''"
    if "col \<in> set (map fst spec)" for col
  proof -
    from that have "col \<in> fst ` set spec" by simp
    moreover from this assms(2) have "col \<notin> fst ` set ids" by blast
    ultimately show ?thesis by (rule metric_row_without_sentinel)
  qed
  then show ?thesis
    by (simp add: statement_without_sentinel_def row_without_sentinel_def list_all_iff
        assms(1) del: set_map)
qed

lemma record_statements_without_sentinel:
  "list_all statement_without_sentinel (record_statements d)"
proof -
  have "statement_without_sentinel (summary_statement d)"
    by (simp add: summary_statement_def statement_without_sentinel_def
        row_without_sentinel_def metric_columns_def)
  moreover have "statement_without_sentinel (production_statement d)"
    unfolding production_statement_def
    by (rule metric_statement_without_sentinel)
      (simp_all add: metric_columns_def production_columns_def)
  moreover have "statement_without_sentinel (activity_statement d)"
    unfolding activity_statement_def
    by (rule metric_statement_without_sentinel)
      (simp_all add: metric_columns_def activity_columns_def filing_cells_def)
  moreover have "statement_without_sentinel (revenue_statement d)"
    unfolding revenue_statement_def
    by (rule metric_statement_without_sentinel)
      (simp_all add: metric_columns_def revenue_columns_def filing_cells_def)
  moreover have "statement_without_sentinel (pricing_statement d)"
    unfolding pricing_statement_def
    by (rule metric_statement_without_sentinel)
      (simp_all add: metric_columns_def pricing_columns_def filing_cells_def)
  moreover have "statement_without_sentinel (cost_statement d)"
    unfolding cost_statement_def
    by (rule metric_statement_without_sentinel)
      (simp_all add: metric_columns_def cost_columns_def filing_cells_def)
  ultimately show ?thesis by (simp add: record_statements_def)
qed

lemma basin_statements_without_sentinel:
  "list_all statement_without_sentinel (basin_statements d entries)"
proof (induction d entries rule: basin_statements.induct)
  case (2 d basin_name basin_data entries)
  have "statement_without_sentinel (basin_statement d basin_name basin_data)"
    unfolding basin_statement_def
    by (rule metric_statement_without_sentinel)
      (simp_all add: metric_columns_def basin_columns_def)
  with 2 show ?case by simp
qed simp_all


lemma execute_upsert_invariant:
  assumes "statement_without_sentinel stmt" and "no_sentinel_metrics (working c)"
  shows "no_sentinel_metrics (working (case_sum id id (execute_upsert accepts stmt c)))
         \<and> committed (case_sum id id (execute_upsert accepts stmt c)) = committed c"
proof -
  obtain t k cols new where stmt: "stmt = (t, k, cols, new)" by (cases stmt) auto
  with assms(1) have new: "row_without_sentinel t new"
    by (simp add: statement_without_sentinel_def)
  from assms(2) have "list_all (row_without_sentinel t) (working c t)"
    by (simp add: no_sentinel_metrics_def)
  with new have "list_all (row_without_sentinel t) (upsert k cols new (working c t))"
    by (rule upsert_without_sentinel)
  with assms(2) have "no_sentinel_metrics ((working c)(t := upsert k cols new (working c t)))"
    by (simp add: no_sentinel_metrics_def)
  with assms(2) show ?thesis by (simp add: execute_upsert_def stmt)
qed

lemma execute_all_invariant:
  "list_all statement_without_sentinel stmts \<Longrightarrow> no_sentinel_metrics (working c) \<Longrightarrow>
   no_sentinel_metrics (working (case_sum id id (execute_all accepts stmts c)))
   \<and> committed (case_sum id id (execute_all accepts stmts c)) = committed c"
proof (induction stmts arbitrary: c)
  case Nil
  then show ?case by simp
next
  case (Cons stmt stmts)
  from Cons.prems have inv: "no_sentinel_metrics (working (case_sum id id (execute_upsert accepts stmt c)))"
    "committed (case_sum id id (execute_upsert accepts stmt c)) = committed c"
    using execute_upsert_invariant [where stmt = stmt and c = c and accepts = accepts]
    by simp_all
  show ?case
  proof (cases "execute_upsert accepts stmt c")
    case (Inl c')
    with inv show ?thesis by simp
  next
    case (Inr c')
    with inv Cons.prems Cons.IH [where c = c'] show ?thesis by simp
  qed
qed

lemma check_duplicate_filing_connection:
  "working (snd (check_duplicate_filing accepts n t dt c)) = working c
   \<and> committed (snd (check_duplicate_filing accepts n t dt c)) = committed c"
  by (simp add: check_duplicate_filing_def)

lemma insert_record_invariant:
  assumes "no_sentinel_metrics (working c)"
  shows "no_sentinel_metrics (working (step_connection (insert_record accepts d c)))
         \<and> committed (step_connection (insert_record accepts d c)) = committed c"
proof -
  let ?chk = "check_duplicate_filing accepts (company_name (info d)) (filing_type (info d))
                (filing_date (info d)) c"
  obtain dup c0 where chk: "?chk = (dup, c0)" by (cases ?chk) auto
  with check_duplicate_filing_connection [where accepts = accepts and c = c
      and n = "company_name (info d)" and t = "filing_type (info d)"
      and dt = "filing_date (info d)"]
  have c0: "working c0 = working c" "committed c0 = committed c" by simp_all
  show ?thesis
  proof (cases dup)
    case True
    with chk c0 assms show ?thesis by (simp add: insert_record_def)
  next
    case False
    from c0 assms have inv0: "no_sentinel_metrics (working c0)" by simp
    note one = execute_all_invariant
      [OF record_statements_without_sentinel [of d] inv0, where accepts = accepts]
    show ?thesis
    proof (cases "execute_all accepts (record_statements d) c0")
      case (Inl c1)
      with one chk False c0 show ?thesis by (simp add: insert_record_def)
    next
      case (Inr c1)
      with one have inv1: "no_sentinel_metrics (working c1)" "committed c1 = committed c0"
        by simp_all
      show ?thesis
      proof (cases "basins d")
        case (PDict entries)
        note two = execute_all_invariant
          [OF basin_statements_without_sentinel [of d entries] inv1(1),
           where accepts = accepts]
        with chk False Inr PDict inv1 c0 show ?thesis
          by (cases "execute_all accepts (basin_statements d entries) c1")
            (simp_all add: insert_record_def)
      qed (use chk False Inr inv1 c0 in \<open>simp_all add: insert_record_def\<close>)
    qed
  qed
qed

lemma insert_all_invariant:
  "no_sentinel_metrics (working c) \<Longrightarrow>
   no_sentinel_metrics (working (step_connection (insert_all accepts ds c)))
   \<and> committed (step_connection (insert_all accepts ds c)) = committed c"
proof (induction ds arbitrary: c)
  case Nil
  then show ?case by simp
next
  case (Cons d ds)
  note one = insert_record_invariant [OF Cons.prems, where accepts = accepts and d = d]
  show ?case
  proof (cases "insert_record accepts d c")
    case (Continue c')
    with one Cons.IH [where c = c'] show ?thesis by simp
  next
    case (PsycopgError c')
    with one show ?thesis by simp
  next
    case (PythonError e c')
    with one show ?thesis by simp
  qed
qed

lemma insert_data_to_database_invariant:
  assumes "no_sentinel_metrics (working c)" and "no_sentinel_metrics (committed c)"
    and "insert_data_to_database accepts all_data c = Inr (ok, c')"
  shows "no_sentinel_metrics (working c') \<and> no_sentinel_metrics (committed c')"
proof -
  note inv = insert_all_invariant [OF assms(1), where accepts = accepts and ds = all_data]
  show ?thesis
  proof (cases "insert_all accepts all_data c")
    case (Continue c1)
    with assms(3) have "c' = commit c1" by (simp add: insert_data_to_database_def)
    with inv Continue assms(2) show ?thesis by (simp add: commit_def)
  next
    case (PsycopgError c1)
    with assms(3) have "c' = rollback c1" by (simp add: insert_data_to_database_def)
    with inv PsycopgError assms(2) show ?thesis by (simp add: rollback_def)
  next
    case (PythonError e c1)
    with assms(3) show ?thesis by (simp add: insert_data_to_database_def)
  qed
qed


lemmas store_eval =
  insert_data_to_database_def insert_record_def check_duplicate_filing_def
  record_statements_def summary_statement_def production_statement_def
  activity_statement_def revenue_statement_def pricing_statement_def cost_statement_def
  filing_cells_def metric_cells_def production_columns_def activity_columns_def
  revenue_columns_def pricing_columns_def cost_columns_def basin_columns_def
  basin_statement_def basin_key_def natural_key_def execute_upsert_def commit_def
  rollback_def clean_val_def dict_get_def column_def conflicts_def sql_eq_def
  summary_matches_def set_columns_def

text \<open>
  Claim C10, as stated: no persisted row ever stores the \<^verbatim>\<open>"Not found"\<close> literal. The
  quarter, the year and the reporting period come from the same model output as the
  metrics and are bound as they are: a record whose quarter is \<^verbatim>\<open>"Not found"\<close> leaves
  that text in the \<^verbatim>\<open>quarter\<close> column of its production row.
\<close>

theorem insert_stores_sentinel_quarter:
  "(case insert_data_to_database (\<lambda>s. True)
           [\<lparr>info = \<lparr>ticker = PStr ''DVN'', cik = PStr ''1090012'',
                     company_name = PStr ''Devon Energy'', filing_type = PStr ''10-Q'',
                     filing_date = PStr ''2025-08-06'', time_period = PStr ''Not found'',
                     quarter = PStr ''Not found'', year = PStr ''2025''\<rparr>,
              production = [], activity = [], revenue = [], pricing = [], costs = [],
              basins = PDict [], raw_filing_data = PDict []\<rparr>]
           \<lparr>committed = (\<lambda>t. []), working = (\<lambda>t. []), aborted = False\<rparr> of
      Inl failure \<Rightarrow> False
    | Inr (ok, conn) \<Rightarrow>
        ok \<and> map (\<lambda>r. column r ''quarter'') (committed conn ''production_data'')
               = [PStr ''Not found''])"
  by (simp add: store_eval)

lemma committed_result_obtain:
  assumes "case x of Inl failure \<Rightarrow> False | Inr (ok, conn) \<Rightarrow> ok \<and> P conn"
  obtains conn where "x = Inr (True, conn)" "P conn"
  using assms by (auto split: sum.splits prod.splits)

text \<open>
  Claim C10, amended. \<^verbatim>\<open>clean_val\<close> returns \<^verbatim>\<open>None\<close> exactly for a falsy value and for
  the text \<^verbatim>\<open>"Not found"\<close>, and never returns \<^verbatim>\<open>"Not found"\<close>; every metric column
  is bound through it, so an insert into tables whose metric columns are free of the
  sentinel leaves them free of it, in the open transaction and in what is committed.
  The identity columns (quarter, year, reporting period and the rest) are bound as they
  are.
\<close>

theorem clean_val_keeps_sentinel_out:
  "(clean_val v = PNone \<longleftrightarrow> \<not> truthy v \<or> v = PStr ''Not found'')
   \<and> clean_val v \<noteq> PStr ''Not found''
   \<and> (no_sentinel_metrics (working c) \<and> no_sentinel_metrics (committed c)
        \<and> insert_data_to_database accepts all_data c = Inr (ok, c') \<longrightarrow>
        no_sentinel_metrics (working c') \<and> no_sentinel_metrics (committed c'))"
  using clean_val_null_iff [of v] clean_val_not_sentinel [of v]
    insert_data_to_database_invariant [of c accepts all_data ok c']
  by blast

theorem clean_val_keeps_sentinel_out_witness:
  "clean_val (PStr ''Not found'') = PNone \<and> clean_val (PStr []) = PNone
   \<and> clean_val (PStr ''546.8 Bcf'') = PStr ''546.8 Bcf''
   \<and> (case insert_data_to_database (\<lambda>s. True)
           [\<lparr>info = \<lparr>ticker = PStr ''DVN'', cik = PStr ''1090012'',
                     company_name = PStr ''Devon Energy'', filing_type = PStr ''10-Q'',
                     filing_date = PStr ''2025-08-06'', time_period = PStr ''Q2 2025'',
                     quarter = PStr ''Q2'', year = PStr ''2025''\<rparr>,
              production = [(''oil_mbbl_per_day_str'', PStr ''Not found''),
                            (''gas_bcf_total_str'', PStr ''546.8 Bcf'')],
              activity = [], revenue = [], pricing = [], costs = [],
              basins = PDict [], raw_filing_data = PDict []\<rparr>]
           \<lparr>committed = (\<lambda>t. []), working = (\<lambda>t. []), aborted = False\<rparr> of
        Inl failure \<Rightarrow> False
      | Inr (ok, conn) \<Rightarrow>
          ok \<and> no_sentinel_metrics (committed conn)
          \<and> map (\<lambda>r. (column r ''oil_mbbl_per_day'', column r ''gas_bcf_total''))
                (committed conn ''production_data'')
              = [(PNone, PStr ''546.8 Bcf'')])"
proof -
  let ?d = "\<lparr>info = \<lparr>ticker = PStr ''DVN'', cik = PStr ''1090012'',
                     company_name = PStr ''Devon Energy'', filing_type = PStr ''10-Q'',
                     filing_date = PStr ''2025-08-06'', time_period = PStr ''Q2 2025'',
                     quarter = PStr ''Q2'', year = PStr ''2025''\<rparr>,
              production = [(''oil_mbbl_per_day_str'', PStr ''Not found''),
                            (''gas_bcf_total_str'', PStr ''546.8 Bcf'')],
              activity = [], revenue = [], pricing = [], costs = [],
              basins = PDict [], raw_filing_data = PDict []\<rparr>"
  let ?c = "\<lparr>committed = (\<lambda>t. []), working = (\<lambda>t. []), aborted = False\<rparr>"
  have empty: "no_sentinel_metrics (working ?c)" "no_sentinel_metrics (committed ?c)"
    by (simp_all add: no_sentinel_metrics_def)
  let ?x = "insert_data_to_database (\<lambda>s. True) [?d] ?c"
  let ?P = "\<lambda>conn. map (\<lambda>r. (column r ''oil_mbbl_per_day'', column r ''gas_bcf_total''))
            (committed conn ''production_data'') = [(PNone, PStr ''546.8 Bcf'')]"
  have run: "case ?x of Inl failure \<Rightarrow> False | Inr (ok, conn) \<Rightarrow> ok \<and> ?P conn"
    by (simp add: store_eval)
  then obtain conn where conn: "?x = Inr (True, conn)" "?P conn"
    by (rule committed_result_obtain)
  note inv = clean_val_keeps_sentinel_out
    [where c = ?c and accepts = "\<lambda>s. True" and all_data = "[?d]" and ok = True
       and c' = conn, THEN conjunct2, THEN conjunct2, rule_format,
     OF conjI [OF empty(1) conjI [OF empty(2) conn(1)]], THEN conjunct2]
  have cv: "clean_val (PStr ''Not found'') = PNone \<and> clean_val (PStr []) = PNone
     \<and> clean_val (PStr ''546.8 Bcf'') = PStr ''546.8 Bcf''"
    by (simp add: clean_val_def)
  have "case ?x of Inl failure \<Rightarrow> False
        | Inr (ok, conn) \<Rightarrow> ok \<and> no_sentinel_metrics (committed conn) \<and> ?P conn"
    using inv conn(2) by (simp only: conn(1) sum.case prod.case simp_thms)
  with cv show ?thesis by (intro conjI) (elim conjE, assumption)+
qed













lemma conflicts_set_columns:
  assumes "set cols \<inter> set k = {}"
  shows "conflicts k new (set_columns cols new old) = conflicts k new old"
proof -
  have "column (set_columns cols new old) c = column old c" if "c \<in> set k" for c
    using that assms by (auto simp: column_set_columns)
  then show ?thesis by (simp add: conflicts_def list_all_iff)
qed

lemma upsert_one_row:
  assumes "conflicts k new new" and "set cols \<inter> set k = {}"
  shows "length (rows_with_key k new rows) \<le> 1 \<Longrightarrow>
         length (rows_with_key k new (upsert k cols new rows)) = 1"
proof (induction rows)
  case Nil
  from assms(1) show ?case by (simp add: rows_with_key_def)
next
  case (Cons old rows)
  show ?case
  proof (cases "conflicts k new old")
    case True
    with Cons.prems have "rows_with_key k new rows = []"
      by (simp add: rows_with_key_def)
    with True assms(2) show ?thesis
      by (simp add: rows_with_key_def conflicts_set_columns)
  next
    case False
    with Cons show ?thesis by (simp add: rows_with_key_def)
  qed
qed









end
